theory Spec2Isabelle
  imports Complex_Main
begin

section \<open>Strings\<close>

text \<open>
  A Python \<open>str\<close> is a sequence of Unicode code points and \<open>len\<close> counts code points,
  so a text is a list of code points. ASCII literals of the source are written through
  \<open>S\<close>, which maps every character of an Isabelle string to its code.
\<close>

type_synonym ustr = "nat list"

definition S :: "string \<Rightarrow> ustr" where
  "S cs = map of_char cs"

text \<open>
  \<open>text[a:b]\<close> for indices \<open>0 \<le> a\<close>, \<open>0 \<le> b\<close>: Python clips both ends to the
  length of the text, as \<open>take\<close> and \<open>drop\<close> do.
\<close>

definition slice :: "ustr \<Rightarrow> nat \<Rightarrow> nat \<Rightarrow> ustr" where
  "slice text a b = take (b - a) (drop a text)"

text \<open>
  \<open>text.rfind(sub, start, end)\<close> for non-negative bounds: the highest index \<open>i\<close> with
  \<open>start \<le> i\<close> such that \<open>sub\<close> occurs at \<open>i\<close> and lies wholly inside
  \<open>text[start:end]\<close>; \<open>-1\<close> when there is none.
\<close>

definition occurs_at :: "ustr \<Rightarrow> ustr \<Rightarrow> nat \<Rightarrow> bool" where
  "occurs_at text sub i = (take (length sub) (drop i text) = sub)"

definition rfind :: "ustr \<Rightarrow> ustr \<Rightarrow> nat \<Rightarrow> nat \<Rightarrow> int" where
  "rfind text sub start end_pos =
     (let stop = min end_pos (length text);
          hits = filter (occurs_at text sub) [start ..< Suc stop - length sub]
      in if hits = [] then - 1 else int (last hits))"

section \<open>The chunker\<close>

text \<open>
  Lines 88 to 105 of \<open>chunk_text\<close>: the boundary chosen in the window
  \<open>[start, start + max_chunk_size)\<close>. The last sentence terminator followed by a space
  or a newline, else the last space, else the last position of the window.
\<close>

definition sentence_end :: "ustr \<Rightarrow> nat \<Rightarrow> nat \<Rightarrow> int" where
  "sentence_end text max_chunk_size start =
     (let end_pos = start + max_chunk_size;
          se = max (rfind text (S ''. '') start end_pos)
                (max (rfind text (S ''? '') start end_pos)
                (max (rfind text (S ''! '') start end_pos)
                (max (rfind text [46, 10] start end_pos)
                (max (rfind text [63, 10] start end_pos)
                     (rfind text [33, 10] start end_pos)))))
      in if se = - 1 then
           (let sp = rfind text (S '' '') start end_pos
            in if sp = - 1 then int end_pos - 1 else sp)
         else se)"

text \<open>
  The \<open>while\<close> loop of \<open>chunk_text\<close> (lines 82 to 109). The loop runs forever when
  the offset does not advance, so the result is optional: \<open>None\<close> is a run that never
  returns. The size \<open>max_chunk_size\<close> is a natural number (the source passes 450 and
  900); a negative size is outside the model.
\<close>

partial_function (option) chunk_loop :: "ustr \<Rightarrow> nat \<Rightarrow> nat \<Rightarrow> ustr list \<Rightarrow> ustr list option" where
  "chunk_loop text max_chunk_size start chunks =
     (if start < length text then
        (if length text \<le> start + max_chunk_size then Some (chunks @ [drop start text])
         else
           (let se = sentence_end text max_chunk_size start
            in chunk_loop text max_chunk_size (nat (se + 1))
                 (chunks @ [slice text start (nat (se + 1))])))
      else Some chunks)"

declare chunk_loop.simps [code]

definition chunk_text :: "ustr \<Rightarrow> nat \<Rightarrow> ustr list option" where
  "chunk_text text max_chunk_size =
     (if text = [] \<or> length text \<le> max_chunk_size then Some [text]
      else chunk_loop text max_chunk_size 0 [])"

section \<open>Python values and exceptions\<close>

text \<open>
  An exception raised by the source is a value \<open>Inl e\<close>; a \<open>try\<close> with its
  \<open>except\<close> is a case distinction on the result. \<open>seq\<close> runs the next statement
  when the previous one did not raise.
\<close>

datatype error =
  RequestException | JSONDecodeError | TranslationError
  | AttributeError | TypeError | IndexError | KeyError

definition seq :: "error + 'a \<Rightarrow> ('a \<Rightarrow> error + 'b) \<Rightarrow> error + 'b" where
  "seq r f = (case r of Inl e \<Rightarrow> Inl e | Inr v \<Rightarrow> f v)"

text \<open>
  What \<open>response.json()\<close> returns: a decoded JSON document. A number is the rational
  it denotes (every finite \<open>int\<close> or \<open>float\<close> of Python is one). An object keeps its
  members as a list of pairs; \<open>map_of\<close> looks a key up.
\<close>

datatype json =
  JNull | JBool bool | JNum rat | JStr ustr | JArr "json list" | JObj "(ustr \<times> json) list"

text \<open>The truth value Python gives to a decoded value (\<open>if x:\<close>).\<close>

fun truthy :: "json \<Rightarrow> bool" where
  "truthy JNull = False"
| "truthy (JBool b) = b"
| "truthy (JNum n) = (n \<noteq> 0)"
| "truthy (JStr s) = (s \<noteq> [])"
| "truthy (JArr xs) = (xs \<noteq> [])"
| "truthy (JObj kvs) = (kvs \<noteq> [])"

text \<open>\<open>x[0]\<close>: the first element of a list or of a string; anything else raises.\<close>

fun getitem0 :: "json \<Rightarrow> error + json" where
  "getitem0 (JArr []) = Inl IndexError"
| "getitem0 (JArr (x # xs)) = Inr x"
| "getitem0 (JStr []) = Inl IndexError"
| "getitem0 (JStr (c # cs)) = Inr (JStr [c])"
| "getitem0 (JObj kvs) = Inl KeyError"
| "getitem0 v = Inl TypeError"

text \<open>
  \<open>for y in x\<close>: the elements of a list, the characters of a string, the keys of a
  dictionary; anything else is not iterable.
\<close>

fun iter :: "json \<Rightarrow> error + json list" where
  "iter (JArr xs) = Inr xs"
| "iter (JStr s) = Inr (map (\<lambda>c. JStr [c]) s)"
| "iter (JObj kvs) = Inr (map (\<lambda>kv. JStr (fst kv)) kvs)"
| "iter v = Inl TypeError"

text \<open>\<open>x.get(key, default)\<close>: only a dictionary has the method.\<close>

fun dict_get :: "json \<Rightarrow> ustr \<Rightarrow> json \<Rightarrow> error + json" where
  "dict_get (JObj kvs) key dflt = Inr (case map_of kvs key of Some v \<Rightarrow> v | None \<Rightarrow> dflt)"
| "dict_get v key dflt = Inl AttributeError"

text \<open>\<open>sub in s\<close>, \<open>s.startswith(p)\<close> and \<open>sep.join(xs)\<close> on strings.\<close>

fun py_in :: "ustr \<Rightarrow> ustr \<Rightarrow> bool" where
  "py_in sub [] = (sub = [])"
| "py_in sub (c # cs) = (take (length sub) (c # cs) = sub \<or> py_in sub cs)"

definition startswith :: "ustr \<Rightarrow> ustr \<Rightarrow> bool" where
  "startswith s p = (take (length p) s = p)"

fun join :: "ustr \<Rightarrow> ustr list \<Rightarrow> ustr" where
  "join sep [] = []"
| "join sep [x] = x"
| "join sep (x # y # ys) = x @ sep @ join sep (y # ys)"

text \<open>
  \<open>s.upper()\<close>, on the characters whose upper case is an ASCII letter: the letters
  \<open>a\<close> to \<open>z\<close>, the dotless i (U+0131) and the long s (U+017F). The other
  characters are kept as they are. Python maps some of them to non-ASCII capitals or to
  short sequences; none of these creates or destroys an occurrence of the two ASCII
  phrases that \<open>translate_text\<close> looks for in the upper-cased text, which is the only
  use of \<open>upper\<close> in the source.
\<close>

definition upper_char :: "nat \<Rightarrow> nat" where
  "upper_char c =
     (if 97 \<le> c \<and> c \<le> 122 then c - 32
      else if c = 305 then 73
      else if c = 383 then 83
      else c)"

definition upper :: "ustr \<Rightarrow> ustr" where
  "upper s = map upper_char s"

section \<open>The outside world\<close>

text \<open>
  An HTTP response as the source reads it: \<open>response.status_code\<close> and
  \<open>response.json()\<close>, which raises when the body is not JSON.
\<close>

record response =
  status_code :: int
  json :: "error + json"

text \<open>
  The three remote services. Their answers may change from one request to the next, so
  the two translation services take the number of translation requests made so far in
  the session as first argument.
  \<^item> \<open>translator_translate n to_lang from_lang chunk\<close> is
    \<open>Translator(to_lang=to_lang, from_lang=from_lang).translate(chunk)\<close>;
  \<^item> \<open>google_get n sl tl q\<close> is the \<open>requests.get\<close> of \<open>google_translate\<close>,
    given by the three request parameters that vary (\<open>client\<close> and \<open>dt\<close> are
    constants); encoding them into the URL is part of the request;
  \<^item> \<open>requests_get url\<close> is the \<open>requests.get\<close> of
    \<open>enrich_with_semantic_scholar\<close>.
\<close>

record env =
  translator_translate :: "nat \<Rightarrow> ustr \<Rightarrow> ustr \<Rightarrow> ustr \<Rightarrow> error + ustr"
  google_get :: "nat \<Rightarrow> ustr \<Rightarrow> ustr \<Rightarrow> ustr \<Rightarrow> error + response"
  requests_get :: "ustr \<Rightarrow> error + response"

section \<open>Enrichment\<close>

text \<open>Lines 22 to 27: the identifier without its prefix, and the URL built from it.\<close>

definition semantic_scholar_url :: "ustr \<Rightarrow> ustr" where
  "semantic_scholar_url arxiv_id =
     (let arxiv_id = (if startswith arxiv_id (S ''arxiv:'') then drop 6 arxiv_id else arxiv_id)
      in S ''https://api.semanticscholar.org/v1/paper/arXiv:'' @ arxiv_id)"

text \<open>Line 46: \<open>[topic.get('name') for topic in ...] if data.get('topics') else []\<close>.\<close>

fun topic_names :: "json list \<Rightarrow> error + json list" where
  "topic_names [] = Inr []"
| "topic_names (topic # rest) =
     seq (dict_get topic (S ''name'') JNull) (\<lambda>name.
     seq (topic_names rest) (\<lambda>names. Inr (name # names)))"

definition topics_of :: "json \<Rightarrow> error + json" where
  "topics_of data =
     seq (dict_get data (S ''topics'') JNull) (\<lambda>present.
       if truthy present then
         seq (dict_get data (S ''topics'') (JArr [])) (\<lambda>topics.
         seq (iter topics) (\<lambda>items.
         seq (topic_names items) (\<lambda>names. Inr (JArr names))))
       else Inr (JArr []))"

text \<open>Lines 38 to 47: the dictionary built from the decoded answer.\<close>

definition additional_data :: "json \<Rightarrow> error + (ustr \<times> json) list" where
  "additional_data data =
     seq (dict_get data (S ''citationCount'') (JNum 0)) (\<lambda>citation_count.
     seq (dict_get data (S ''influentialCitationCount'') (JNum 0)) (\<lambda>influence_factor.
     seq (dict_get data (S ''venue'') (JStr [26410, 30693])) (\<lambda>published_in.
     seq (dict_get data (S ''year'') JNull) (\<lambda>year.
     seq (dict_get data (S ''doi'') JNull) (\<lambda>doi.
     seq (dict_get data (S ''url'') JNull) (\<lambda>url.
     seq (dict_get data (S ''isOpenAccess'') (JBool False)) (\<lambda>is_open_access.
     seq (topics_of data) (\<lambda>topics.
       Inr [(S ''citation_count'', citation_count),
            (S ''influence_factor'', influence_factor),
            (S ''published_in'', published_in),
            (S ''year'', year),
            (S ''doi'', doi),
            (S ''url'', url),
            (S ''is_open_access'', is_open_access),
            (S ''topics'', topics)]))))))))"

text \<open>
  The \<open>try\<close> block of lines 29 to 52, then the whole function: the \<open>except\<close> of
  line 54 turns every exception of the block into the empty dictionary.
\<close>

definition enrich_try :: "env \<Rightarrow> ustr \<Rightarrow> error + (ustr \<times> json) list" where
  "enrich_try env url =
     seq (requests_get env url) (\<lambda>response.
       if status_code response = 200 then seq (json response) additional_data
       else Inr [])"

definition enrich_with_semantic_scholar :: "env \<Rightarrow> ustr \<Rightarrow> error + (ustr \<times> json) list" where
  "enrich_with_semantic_scholar env arxiv_id =
     (case enrich_try env (semantic_scholar_url arxiv_id) of
        Inl e \<Rightarrow> Inr []
      | Inr additional \<Rightarrow> Inr additional)"

section \<open>Translation\<close>

definition contains_chinese :: "ustr \<Rightarrow> bool" where
  "contains_chinese text =
     (if text = [] then False else list_ex (\<lambda>c. 19968 \<le> c \<and> c \<le> 40959) text)"

text \<open>
  The loop of lines 139 to 141 of \<open>google_translate\<close>, the \<open>try\<close> block of lines
  115 to 143, and the function with its \<open>except\<close>, which returns the text it was given.
\<close>

fun google_sentences :: "ustr \<Rightarrow> json list \<Rightarrow> error + ustr" where
  "google_sentences translated_text [] = Inr translated_text"
| "google_sentences translated_text (sentence # rest) =
     seq (getitem0 sentence) (\<lambda>part.
       if truthy part then
         (case part of
            JStr t \<Rightarrow> google_sentences (translated_text @ t) rest
          | _ \<Rightarrow> Inl TypeError)
       else google_sentences translated_text rest)"

definition google_try :: "env \<Rightarrow> nat \<Rightarrow> ustr \<Rightarrow> ustr \<Rightarrow> ustr \<Rightarrow> error + ustr" where
  "google_try env n text to_lang from_lang =
     seq (google_get env n from_lang to_lang text) (\<lambda>response.
       if status_code response \<noteq> 200 then Inr text
       else
         seq (json response) (\<lambda>result.
         seq (getitem0 result) (\<lambda>first.
         seq (iter first) (\<lambda>sentences. google_sentences [] sentences))))"

definition google_translate :: "env \<Rightarrow> nat \<Rightarrow> ustr \<Rightarrow> ustr \<Rightarrow> ustr \<Rightarrow> error + ustr" where
  "google_translate env n text to_lang from_lang =
     (case google_try env n text to_lang from_lang of
        Inl e \<Rightarrow> Inr text
      | Inr translated_text \<Rightarrow> Inr translated_text)"

text \<open>
  The instance of \<open>MetadataEnricher\<close>: its three attributes, and with them the list of
  the translation requests the instance has made so far, in order. The source keeps no
  such list; it records which service was asked to translate which text, so that
  statements about the services invoked can be made.
\<close>

datatype backend = Primary | Secondary

record enricher =
  translation_cache :: "ustr \<rightharpoonup> ustr"
  translation_fail_count :: nat
  use_google_translate :: bool
  backend_calls :: "(backend \<times> ustr) list"

definition init :: enricher where
  "init = \<lparr>translation_cache = Map.empty, translation_fail_count = 0,
           use_google_translate = False, backend_calls = []\<rparr>"

definition call_primary ::
  "env \<Rightarrow> enricher \<Rightarrow> ustr \<Rightarrow> ustr \<Rightarrow> ustr \<Rightarrow> (error + ustr) \<times> enricher" where
  "call_primary env self chunk to_lang from_lang =
     (translator_translate env (length (backend_calls self)) to_lang from_lang chunk,
      self\<lparr>backend_calls := backend_calls self @ [(Primary, chunk)]\<rparr>)"

definition call_google ::
  "env \<Rightarrow> enricher \<Rightarrow> ustr \<Rightarrow> ustr \<Rightarrow> ustr \<Rightarrow> (error + ustr) \<times> enricher" where
  "call_google env self chunk to_lang from_lang =
     (google_translate env (length (backend_calls self)) chunk to_lang from_lang,
      self\<lparr>backend_calls := backend_calls self @ [(Secondary, chunk)]\<rparr>)"

definition cache_key :: "ustr \<Rightarrow> ustr \<Rightarrow> ustr \<Rightarrow> ustr" where
  "cache_key text from_lang to_lang = take 30 text @ S ''_'' @ from_lang @ S ''_'' @ to_lang"

definition store :: "ustr \<Rightarrow> ustr \<Rightarrow> enricher \<Rightarrow> enricher" where
  "store key translated self =
     self\<lparr>translation_cache := (translation_cache self)(key \<mapsto> translated)\<rparr>"

text \<open>Lines 209 and 250: the test for the quota message in an answer of the primary service.\<close>

definition is_quota_message :: "ustr \<Rightarrow> bool" where
  "is_quota_message translated =
     (py_in (S ''MYMEMORY WARNING'') (upper translated)
      \<or> py_in (S ''QUOTA EXCEEDED'') (upper translated))"

definition quota_exceeded :: "enricher \<Rightarrow> enricher" where
  "quota_exceeded self =
     self\<lparr>translation_fail_count := translation_fail_count self + 1,
          use_google_translate := True\<rparr>"

definition failed :: "enricher \<Rightarrow> enricher" where
  "failed self = self\<lparr>translation_fail_count := translation_fail_count self + 1\<rparr>"

text \<open>
  Lines 171 to 194: the session has switched to the secondary service. The loop of lines
  183 to 186 first, then the block with its \<open>except\<close> (line 192), which returns the
  text untranslated.
\<close>

fun google_chunks ::
  "env \<Rightarrow> ustr \<Rightarrow> ustr \<Rightarrow> ustr list \<Rightarrow> ustr list \<Rightarrow> enricher
     \<Rightarrow> (error + ustr list) \<times> enricher" where
  "google_chunks env to_lang from_lang [] translated_chunks self = (Inr translated_chunks, self)"
| "google_chunks env to_lang from_lang (chunk # rest) translated_chunks self =
     (case call_google env self chunk to_lang from_lang of
        (Inl e, self1) \<Rightarrow> (Inl e, self1)
      | (Inr translated_chunk, self1) \<Rightarrow>
          google_chunks env to_lang from_lang rest (translated_chunks @ [translated_chunk]) self1)"

definition translate_google_only ::
  "env \<Rightarrow> enricher \<Rightarrow> ustr \<Rightarrow> ustr \<Rightarrow> ustr \<Rightarrow> ((error + ustr) \<times> enricher) option" where
  "translate_google_only env self text to_lang from_lang =
     (case chunk_text text 900 of
        None \<Rightarrow> None
      | Some chunks \<Rightarrow>
          Some
            (if length chunks = 1 then
               (case call_google env self (chunks ! 0) to_lang from_lang of
                  (Inl e, self1) \<Rightarrow> (Inr text, self1)
                | (Inr translated, self1) \<Rightarrow>
                    (Inr translated, store (cache_key text from_lang to_lang) translated self1))
             else
               (case google_chunks env to_lang from_lang chunks [] self of
                  (Inl e, self1) \<Rightarrow> (Inr text, self1)
                | (Inr translated_chunks, self1) \<Rightarrow>
                    (let translated = join (S '' '') translated_chunks
                     in (Inr translated,
                         store (cache_key text from_lang to_lang) translated self1)))))"

text \<open>
  Lines 204 to 230: a text of one chunk. \<open>single_except\<close> is the handler of line 220,
  \<open>translate_single\<close> the \<open>try\<close> block it guards.
\<close>

definition single_except ::
  "env \<Rightarrow> enricher \<Rightarrow> ustr \<Rightarrow> ustr \<Rightarrow> ustr \<Rightarrow> ustr \<Rightarrow> (error + ustr) \<times> enricher" where
  "single_except env self text chunk to_lang from_lang =
     (case call_google env (failed self) chunk to_lang from_lang of
        (Inl e, self1) \<Rightarrow> (Inr text, self1)
      | (Inr translated, self1) \<Rightarrow>
          (Inr translated, store (cache_key text from_lang to_lang) translated self1))"

definition translate_single ::
  "env \<Rightarrow> enricher \<Rightarrow> ustr \<Rightarrow> ustr \<Rightarrow> ustr \<Rightarrow> ustr \<Rightarrow> (error + ustr) \<times> enricher" where
  "translate_single env self text chunk to_lang from_lang =
     (case call_primary env self chunk to_lang from_lang of
        (Inl e, self1) \<Rightarrow> single_except env self1 text chunk to_lang from_lang
      | (Inr translated, self1) \<Rightarrow>
          if is_quota_message translated then
            (case call_google env (quota_exceeded self1) chunk to_lang from_lang of
               (Inl e, self2) \<Rightarrow> single_except env self2 text chunk to_lang from_lang
             | (Inr translated, self2) \<Rightarrow>
                 (Inr translated, store (cache_key text from_lang to_lang) translated self2))
          else (Inr translated, store (cache_key text from_lang to_lang) translated self1))"

text \<open>
  Lines 236 to 270: one round of the loop over the chunks of a longer text.
  \<open>chunk_except\<close> is the handler of line 260, \<open>translate_chunk\<close> the \<open>try\<close> block
  it guards, \<open>translate_chunks\<close> the loop.
\<close>

definition chunk_except ::
  "env \<Rightarrow> ustr \<Rightarrow> ustr \<Rightarrow> ustr \<Rightarrow> ustr list \<Rightarrow> enricher \<Rightarrow> ustr list \<times> enricher" where
  "chunk_except env chunk to_lang from_lang translated_chunks self =
     (case call_google env (failed self) chunk to_lang from_lang of
        (Inl e, self1) \<Rightarrow> (translated_chunks @ [chunk], self1)
      | (Inr translated_chunk, self1) \<Rightarrow> (translated_chunks @ [translated_chunk], self1))"

definition translate_chunk ::
  "env \<Rightarrow> ustr \<Rightarrow> ustr \<Rightarrow> ustr \<Rightarrow> ustr list \<Rightarrow> enricher \<Rightarrow> ustr list \<times> enricher" where
  "translate_chunk env chunk to_lang from_lang translated_chunks self =
     (if use_google_translate self then
        (case call_google env self chunk to_lang from_lang of
           (Inl e, self1) \<Rightarrow> chunk_except env chunk to_lang from_lang translated_chunks self1
         | (Inr translated_chunk, self1) \<Rightarrow> (translated_chunks @ [translated_chunk], self1))
      else
        (case call_primary env self chunk to_lang from_lang of
           (Inl e, self1) \<Rightarrow> chunk_except env chunk to_lang from_lang translated_chunks self1
         | (Inr translated_chunk, self1) \<Rightarrow>
             if is_quota_message translated_chunk then
               (case call_google env (quota_exceeded self1) chunk to_lang from_lang of
                  (Inl e, self2) \<Rightarrow>
                    chunk_except env chunk to_lang from_lang translated_chunks self2
                | (Inr translated_chunk, self2) \<Rightarrow>
                    (translated_chunks @ [translated_chunk], self2))
             else (translated_chunks @ [translated_chunk], self1)))"

fun translate_chunks ::
  "env \<Rightarrow> ustr \<Rightarrow> ustr \<Rightarrow> ustr list \<Rightarrow> ustr list \<Rightarrow> enricher \<Rightarrow> ustr list \<times> enricher" where
  "translate_chunks env to_lang from_lang [] translated_chunks self = (translated_chunks, self)"
| "translate_chunks env to_lang from_lang (chunk # rest) translated_chunks self =
     (case translate_chunk env chunk to_lang from_lang translated_chunks self of
        (translated_chunks1, self1) \<Rightarrow>
          translate_chunks env to_lang from_lang rest translated_chunks1 self1)"

text \<open>
  Lines 196 to 278, the \<open>try\<close> block of the ordinary path, and lines 280 to 286, its
  handler.
\<close>

definition translate_try ::
  "env \<Rightarrow> enricher \<Rightarrow> ustr \<Rightarrow> ustr \<Rightarrow> ustr \<Rightarrow> ((error + ustr) \<times> enricher) option" where
  "translate_try env self text to_lang from_lang =
     (case chunk_text text 450 of
        None \<Rightarrow> None
      | Some chunks \<Rightarrow>
          Some
            (if length chunks = 1 then
               translate_single env self text (chunks ! 0) to_lang from_lang
             else
               (case translate_chunks env to_lang from_lang chunks [] self of
                  (translated_chunks, self1) \<Rightarrow>
                    (let translated = join (S '' '') translated_chunks
                     in (Inr translated,
                         store (cache_key text from_lang to_lang) translated self1)))))"

definition translate_except ::
  "env \<Rightarrow> enricher \<Rightarrow> ustr \<Rightarrow> ustr \<Rightarrow> ustr \<Rightarrow> (error + ustr) \<times> enricher" where
  "translate_except env self text to_lang from_lang =
     (case call_google env self text to_lang from_lang of
        (Inl e, self1) \<Rightarrow> (Inr text, self1)
      | (Inr translated, self1) \<Rightarrow> (Inr translated, self1))"

text \<open>
  \<open>translate_text\<close>. The result is \<open>None\<close> when the call does not return,
  \<open>Some (Inl e, self')\<close> when it raises \<open>e\<close>, and \<open>Some (Inr translated, self')\<close>
  when it returns a string; \<open>self'\<close> is the instance after the call. The pauses
  (\<open>time.sleep\<close>) and the printed messages are left out.
\<close>

definition translate_text ::
  "env \<Rightarrow> enricher \<Rightarrow> ustr \<Rightarrow> ustr \<Rightarrow> ustr \<Rightarrow> ((error + ustr) \<times> enricher) option" where
  "translate_text env self text to_lang from_lang =
     (if text = [] then Some (Inr [], self)
      else if to_lang = S ''zh'' \<and> contains_chinese text then Some (Inr text, self)
      else
        (case translation_cache self (cache_key text from_lang to_lang) of
           Some cached \<Rightarrow> Some (Inr cached, self)
         | None \<Rightarrow>
             if 3 \<le> translation_fail_count self \<or> use_google_translate self then
               translate_google_only env (self\<lparr>use_google_translate := True\<rparr>)
                 text to_lang from_lang
             else
               (case translate_try env self text to_lang from_lang of
                  None \<Rightarrow> None
                | Some (Inl e, self1) \<Rightarrow>
                    Some (translate_except env self1 text to_lang from_lang)
                | Some (Inr translated, self1) \<Rightarrow> Some (Inr translated, self1))))"

text \<open>
  A session: the calls of \<open>translate_text\<close> made one after the other on one instance,
  each given by its text and its two languages. The result is the list of the values
  returned, with the instance after the last call.
\<close>

fun translate_all ::
  "env \<Rightarrow> enricher \<Rightarrow> (ustr \<times> ustr \<times> ustr) list \<Rightarrow> ((error + ustr) list \<times> enricher) option" where
  "translate_all env self [] = Some ([], self)"
| "translate_all env self ((text, to_lang, from_lang) # calls) =
     (case translate_text env self text to_lang from_lang of
        None \<Rightarrow> None
      | Some (r, self1) \<Rightarrow>
          (case translate_all env self1 calls of
             None \<Rightarrow> None
           | Some (rs, self2) \<Rightarrow> Some (r # rs, self2)))"

section \<open>Auxiliary notions for the proofs\<close>

text \<open>A value returned by a search in the window \<open>[start, end_pos)\<close>: not found, or inside.\<close>

definition in_window :: "nat \<Rightarrow> nat \<Rightarrow> int \<Rightarrow> bool" where
  "in_window start end_pos r = (r = - 1 \<or> (int start \<le> r \<and> r < int end_pos))"


text \<open>
  What \<open>google_translate\<close> returns: the translation, or the text it was given when
  its \<open>try\<close> block raised.
\<close>

definition google_result :: "env \<Rightarrow> nat \<Rightarrow> ustr \<Rightarrow> ustr \<Rightarrow> ustr \<Rightarrow> ustr" where
  "google_result env n text to_lang from_lang =
     (case google_try env n text to_lang from_lang of Inl e \<Rightarrow> text | Inr t \<Rightarrow> t)"

text \<open>
  The keys of the dictionary that \<open>enrich_with_semantic_scholar\<close> builds, and the
  answers whose \<open>topics\<close> member the comprehension of line 46 can read: absent, false
  in Python's sense, or a list of objects.
\<close>

definition enrichment_fields :: "ustr list" where
  "enrichment_fields =
     [S ''citation_count'', S ''influence_factor'', S ''published_in'', S ''year'',
      S ''doi'', S ''url'', S ''is_open_access'', S ''topics'']"

definition topics_well_formed :: "(ustr \<times> json) list \<Rightarrow> bool" where
  "topics_well_formed members =
     (case map_of members (S ''topics'') of
        None \<Rightarrow> True
      | Some t \<Rightarrow>
          \<not> truthy t \<or> (\<exists>topics. t = JArr topics \<and> (\<forall>topic \<in> set topics. \<exists>kvs. topic = JObj kvs)))"

text \<open>
  A service is down for a chunk when every request to translate that chunk raises,
  whenever it is made.
\<close>

definition primary_raises :: "env \<Rightarrow> ustr \<Rightarrow> ustr \<Rightarrow> ustr \<Rightarrow> bool" where
  "primary_raises env chunk to_lang from_lang =
     (\<forall>n. \<exists>e. translator_translate env n to_lang from_lang chunk = Inl e)"

definition google_raises :: "env \<Rightarrow> ustr \<Rightarrow> ustr \<Rightarrow> ustr \<Rightarrow> bool" where
  "google_raises env chunk to_lang from_lang =
     (\<forall>n. \<exists>e. google_get env n from_lang to_lang chunk = Inl e)"

text \<open>Requests that all went to one service.\<close>

definition calls_of :: "backend \<Rightarrow> (backend \<times> ustr) list \<Rightarrow> bool" where
  "calls_of b new = list_all (\<lambda>call. fst call = b) new"




section \<open>Example worlds\<close>

text \<open>
  Three worlds for the examples: one where both translation services raise on every
  request, one where the primary service answers every request with its quota message
  and the secondary service translates, and one where the primary service translates.
\<close>

definition down_env :: env where
  "down_env =
     \<lparr>translator_translate = (\<lambda>n to_lang from_lang chunk. Inl TranslationError),
      google_get = (\<lambda>n sl tl q. Inl RequestException),
      requests_get = (\<lambda>url. Inl RequestException)\<rparr>"

definition quota_env :: env where
  "quota_env =
     \<lparr>translator_translate =
        (\<lambda>n to_lang from_lang chunk. Inr (S ''MyMemory Warning: quota exceeded'')),
      google_get =
        (\<lambda>n sl tl q. Inr \<lparr>status_code = 200,
           json = Inr (JArr [JArr [JArr [JStr [20320, 22909], JStr q, JNull]]])\<rparr>),
      requests_get = (\<lambda>url. Inl RequestException)\<rparr>"

definition plain_env :: env where
  "plain_env =
     \<lparr>translator_translate = (\<lambda>n to_lang from_lang chunk. Inr (S ''ok'')),
      google_get = (\<lambda>n sl tl q. Inl RequestException),
      requests_get = (\<lambda>url. Inl RequestException)\<rparr>"

text \<open>
  A world for the enrichment examples: the citation service knows one paper and answers
  404 for every other.
\<close>

definition scholar_members :: "(ustr \<times> json) list" where
  "scholar_members =
     [(S ''citationCount'', JNum 42),
      (S ''venue'', JStr (S ''NIPS'')),
      (S ''year'', JNum 2017),
      (S ''topics'', JArr [JObj [(S ''name'', JStr (S ''Attention''))], JObj []])]"

definition scholar_response :: response where
  "scholar_response = \<lparr>status_code = 200, json = Inr (JObj scholar_members)\<rparr>"

definition not_found :: response where
  "not_found = \<lparr>status_code = 404, json = Inl JSONDecodeError\<rparr>"

definition scholar_env :: env where
  "scholar_env =
     \<lparr>translator_translate = (\<lambda>n to_lang from_lang chunk. Inl TranslationError),
      google_get = (\<lambda>n sl tl q. Inl RequestException),
      requests_get =
        (\<lambda>url. if url = S ''https://api.semanticscholar.org/v1/paper/arXiv:1706.03762''
               then Inr scholar_response else Inr not_found)\<rparr>"

text \<open>
  A world where the primary service translates the first request of the session and
  answers every later one with its quota message.
\<close>

definition late_quota_env :: env where
  "late_quota_env =
     \<lparr>translator_translate =
        (\<lambda>n to_lang from_lang chunk.
           if n = 0 then Inr (S ''ok'') else Inr (S ''MyMemory Warning: quota exceeded'')),
      google_get =
        (\<lambda>n sl tl q. Inr \<lparr>status_code = 200,
           json = Inr (JArr [JArr [JArr [JStr [20320, 22909], JStr q, JNull]]])\<rparr>),
      requests_get = (\<lambda>url. Inl RequestException)\<rparr>"

text \<open>
  A world where the citation service answers 200 to every request, with a body that is
  not what the code expects: a JSON array for the paper \<open>1\<close>, and for every other paper
  an object whose topics are plain names.
\<close>

definition array_response :: response where
  "array_response = \<lparr>status_code = 200, json = Inr (JArr [])\<rparr>"

definition names_response :: response where
  "names_response =
     \<lparr>status_code = 200, json = Inr (JObj [(S ''topics'', JArr [JStr (S ''ML'')])])\<rparr>"

definition odd_env :: env where
  "odd_env =
     \<lparr>translator_translate = (\<lambda>n to_lang from_lang chunk. Inl TranslationError),
      google_get = (\<lambda>n sl tl q. Inl RequestException),
      requests_get =
        (\<lambda>url. if url = S ''https://api.semanticscholar.org/v1/paper/arXiv:1''
               then Inr array_response else Inr names_response)\<rparr>"

section \<open>The chunker: boundaries and the loop\<close>

lemma rfind_bounds:
  assumes "rfind text sub start end_pos \<noteq> - 1"
  shows "int start \<le> rfind text sub start end_pos"
    and "rfind text sub start end_pos + int (length sub) \<le> int end_pos"
proof -
  define hits where "hits = filter (occurs_at text sub) [start ..< Suc (min end_pos (length text)) - length sub]"
  from assms have ne: "hits \<noteq> []" and r: "rfind text sub start end_pos = int (last hits)"
    by (auto simp: rfind_def Let_def hits_def split: if_splits)
  from ne have "last hits \<in> set hits" by simp
  then have "last hits \<in> set [start ..< Suc (min end_pos (length text)) - length sub]"
    unfolding hits_def by simp
  then have "start \<le> last hits" and "last hits + length sub \<le> end_pos" by auto
  with r show "int start \<le> rfind text sub start end_pos"
    and "rfind text sub start end_pos + int (length sub) \<le> int end_pos" by simp_all
qed

lemma in_window_rfind:
  "sub \<noteq> [] \<Longrightarrow> in_window start end_pos (rfind text sub start end_pos)"
  using rfind_bounds [of "text" sub start end_pos]
  by (cases sub) (auto simp: in_window_def)

lemma in_window_max:
  "in_window start end_pos a \<Longrightarrow> in_window start end_pos b \<Longrightarrow> in_window start end_pos (max a b)"
  by (auto simp: in_window_def max_def)

lemma sentence_end_window:
  assumes "1 \<le> max_chunk_size"
  shows "in_window start (start + max_chunk_size) (sentence_end text max_chunk_size start)
         \<and> sentence_end text max_chunk_size start \<noteq> - 1"
proof -
  let ?e = "start + max_chunk_size"
  define se where "se = max (rfind text (S ''. '') start ?e)
                (max (rfind text (S ''? '') start ?e)
                (max (rfind text (S ''! '') start ?e)
                (max (rfind text [46, 10] start ?e)
                (max (rfind text [63, 10] start ?e)
                     (rfind text [33, 10] start ?e)))))"
  define sp where "sp = rfind text (S '' '') start ?e"
  have se: "in_window start ?e se"
    unfolding se_def by (intro in_window_max in_window_rfind) (simp_all add: S_def)
  have sp: "in_window start ?e sp"
    unfolding sp_def by (rule in_window_rfind) (simp add: S_def)
  have eq: "sentence_end text max_chunk_size start =
      (if se = - 1 then (if sp = - 1 then int ?e - 1 else sp) else se)"
    unfolding sentence_end_def Let_def se_def sp_def by (rule refl)
  from se sp assms show ?thesis
    unfolding eq in_window_def by auto
qed

lemma slice_append_drop:
  assumes "a \<le> b"
  shows "slice text a b @ drop b text = drop a text"
proof -
  have h: "drop (b - a) (drop a text) = drop b text"
    using assms by simp
  have "take (b - a) (drop a text) @ drop (b - a) (drop a text) = drop a text"
    by (rule append_take_drop_id)
  then show ?thesis
    unfolding slice_def h .
qed

lemma chunk_loop_spec:
  assumes "1 \<le> max_chunk_size"
  shows "\<exists>new. chunk_loop text max_chunk_size start chunks = Some (chunks @ new)
           \<and> concat new = drop start text
           \<and> (\<forall>c \<in> set new. c \<noteq> [] \<and> length c \<le> max_chunk_size)"
proof (induction "length text - start" arbitrary: start chunks rule: less_induct)
  case less
  show ?case
  proof (cases "start < length text")
    case False
    then show ?thesis by (subst chunk_loop.simps) simp
  next
    case inside: True
    show ?thesis
    proof (cases "length text \<le> start + max_chunk_size")
      case True
      with inside have "chunk_loop text max_chunk_size start chunks = Some (chunks @ [drop start text])"
        by (subst chunk_loop.simps) simp
      with inside True show ?thesis by auto
    next
      case False
      define se where "se = sentence_end text max_chunk_size start"
      define start' where "start' = nat (se + 1)"
      from assms sentence_end_window [of max_chunk_size start "text"]
      have b: "start < start'" "start' \<le> start + max_chunk_size"
        by (auto simp: in_window_def se_def start'_def)
      with False have lt: "start' < length text" by simp
      have step: "chunk_loop text max_chunk_size start chunks =
          chunk_loop text max_chunk_size start' (chunks @ [slice text start start'])"
        using inside False
        by (subst chunk_loop.simps) (simp add: Let_def se_def start'_def)
      from b lt have "length text - start' < length text - start" by simp
      from less [OF this, of "chunks @ [slice text start start']"]
      obtain new where new: "chunk_loop text max_chunk_size start' (chunks @ [slice text start start'])
            = Some ((chunks @ [slice text start start']) @ new)"
          "concat new = drop start' text"
          "\<forall>c \<in> set new. c \<noteq> [] \<and> length c \<le> max_chunk_size"
        by blast
      have len: "length (slice text start start') = start' - start"
        using lt b by (simp add: slice_def)
      have "concat (slice text start start' # new) = drop start text"
        using new(2) slice_append_drop [of start start' "text"] b by simp
      moreover have "\<forall>c \<in> set (slice text start start' # new). c \<noteq> [] \<and> length c \<le> max_chunk_size"
        using new(3) len b by auto
      moreover have "chunk_loop text max_chunk_size start chunks
           = Some (chunks @ (slice text start start' # new))"
        using step new(1) by simp
      ultimately show ?thesis by blast
    qed
  qed
qed


lemma chunk_text_spec:
  assumes "1 \<le> max_chunk_size"
  shows "\<exists>chunks. chunk_text text max_chunk_size = Some chunks
           \<and> chunks \<noteq> []
           \<and> concat chunks = text
           \<and> (\<forall>c \<in> set chunks. length c \<le> max_chunk_size)"
proof (cases "text = [] \<or> length text \<le> max_chunk_size")
  case True
  then have "chunk_text text max_chunk_size = Some [text]"
    by (simp add: chunk_text_def)
  with True show ?thesis by auto
next
  case False
  from chunk_loop_spec [OF assms, of "text" 0 "[]"]
  obtain new where new: "chunk_loop text max_chunk_size 0 [] = Some new"
      "concat new = text" "\<forall>c \<in> set new. c \<noteq> [] \<and> length c \<le> max_chunk_size"
    by auto
  from False new(2) have "new \<noteq> []" by auto
  with False new show ?thesis by (auto simp: chunk_text_def)
qed

section \<open>Claims about the chunker\<close>

text \<open>
  C5. For every text and every \<open>max_chunk_size\<close> of at least 1, \<open>chunk_text\<close> returns,
  and what it returns is a non-empty list of strings, each of length at most
  \<open>max_chunk_size\<close>.
\<close>

theorem chunk_text_bounded:
  assumes "1 \<le> max_chunk_size"
  shows "\<exists>chunks. chunk_text text max_chunk_size = Some chunks
           \<and> chunks \<noteq> []
           \<and> (\<forall>c \<in> set chunks. length c \<le> max_chunk_size)"
  using chunk_text_spec [OF assms, of "text"] by blast

text \<open>The bound at work on a text of five chunks, with \<open>max_chunk_size = 10\<close>.\<close>

theorem chunk_text_bounded_witness:
  "(1::nat) \<le> 10
   \<and> chunk_text (S ''Hello world. This is it! And more'') 10
       = Some [S ''Hello '', S ''world.'', S '' This is '', S ''it!'', S '' And more'']
   \<and> (\<exists>chunks. chunk_text (S ''Hello world. This is it! And more'') 10 = Some chunks
           \<and> chunks \<noteq> []
           \<and> list_all (\<lambda>c. length c \<le> 10) chunks)"
proof -
  have h: "(1::nat) \<le> 10" by simp
  have v: "chunk_text (S ''Hello world. This is it! And more'') 10
       = Some [S ''Hello '', S ''world.'', S '' This is '', S ''it!'', S '' And more'']"
    by code_simp
  from chunk_text_bounded [OF h, of "S ''Hello world. This is it! And more''"] h v
  show ?thesis by (simp add: list_all_iff)
qed

text \<open>
  C6. The loop of \<open>chunk_text\<close> ends for every text and every \<open>max_chunk_size\<close> of at
  least 1: the call returns, the loop returns from any offset and any list of chunks
  collected so far, and the offset of the next round, \<open>sentence_end + 1\<close>, is greater than
  the current one whatever the searches in the window found.
\<close>

theorem chunk_text_terminates:
  assumes "1 \<le> max_chunk_size"
  shows "(\<exists>chunks. chunk_text text max_chunk_size = Some chunks)
         \<and> (\<exists>result. chunk_loop text max_chunk_size start chunks = Some result)
         \<and> start < nat (sentence_end text max_chunk_size start + 1)"
proof -
  from chunk_text_spec [OF assms, of "text"]
  have "\<exists>chunks. chunk_text text max_chunk_size = Some chunks" by blast
  moreover from chunk_loop_spec [OF assms, of "text" start chunks]
  have "\<exists>result. chunk_loop text max_chunk_size start chunks = Some result" by blast
  moreover from assms sentence_end_window [of max_chunk_size start "text"]
  have "start < nat (sentence_end text max_chunk_size start + 1)"
    by (auto simp: in_window_def)
  ultimately show ?thesis by blast
qed

text \<open>
  With \<open>max_chunk_size = 1\<close>: the window at offset 0 holds no boundary (a hard cut), the
  window at offset 2 holds a space; the offset advances in both.
\<close>

theorem chunk_text_terminates_witness:
  "(1::nat) \<le> 1
   \<and> (\<exists>chunks. chunk_text (S ''ab cdefgh ij'') 1 = Some chunks)
   \<and> (\<exists>result. chunk_loop (S ''ab cdefgh ij'') 1 0 [] = Some result)
   \<and> (0::nat) < nat (sentence_end (S ''ab cdefgh ij'') 1 0 + 1)
   \<and> sentence_end (S ''ab cdefgh ij'') 1 0 = 0
   \<and> sentence_end (S ''ab cdefgh ij'') 1 2 = 2"
proof -
  have h: "(1::nat) \<le> 1" by simp
  have v: "sentence_end (S ''ab cdefgh ij'') 1 0 = 0" "sentence_end (S ''ab cdefgh ij'') 1 2 = 2"
    by code_simp+
  from chunk_text_terminates [OF h, of "S ''ab cdefgh ij''" 0 "[]"] v
  show ?thesis by simp
qed

text \<open>
  C7. For every text and every \<open>max_chunk_size\<close> of at least 1, the chunks returned by
  \<open>chunk_text\<close>, put together with nothing between them, are the text: no character is
  lost and none is repeated.
\<close>

theorem chunk_text_concat:
  assumes "1 \<le> max_chunk_size"
  shows "\<exists>chunks. chunk_text text max_chunk_size = Some chunks \<and> concat chunks = text"
  using chunk_text_spec [OF assms, of "text"] by blast

text \<open>A text cut at hard boundaries and at spaces, with \<open>max_chunk_size = 4\<close>.\<close>

theorem chunk_text_concat_witness:
  "(1::nat) \<le> 4
   \<and> chunk_text (S ''One. Two? Three'') 4 = Some [S ''One.'', S '' '', S ''Two?'', S '' '', S ''Thre'', S ''e'']
   \<and> (\<exists>chunks. chunk_text (S ''One. Two? Three'') 4 = Some chunks
          \<and> concat chunks = S ''One. Two? Three'')"
proof -
  have h: "(1::nat) \<le> 4" by simp
  have v: "chunk_text (S ''One. Two? Three'') 4
      = Some [S ''One.'', S '' '', S ''Two?'', S '' '', S ''Thre'', S ''e'']"
    by code_simp
  from chunk_text_concat [OF h, of "S ''One. Two? Three''"] h v
  show ?thesis by simp
qed

text \<open>
  C9. A text no longer than \<open>max_chunk_size\<close> is returned as the single chunk
  \<open>[text]\<close>; the empty text is, for every \<open>max_chunk_size\<close>.
\<close>

theorem chunk_text_short:
  "(length text \<le> max_chunk_size \<longrightarrow> chunk_text text max_chunk_size = Some [text])
   \<and> chunk_text [] max_chunk_size = Some [[]]"
  by (simp add: chunk_text_def)

text \<open>A text of ten characters with \<open>max_chunk_size = 10\<close>, and the empty text with 0.\<close>

theorem chunk_text_short_witness:
  "length (S ''short text'') \<le> (10::nat)
   \<and> chunk_text (S ''short text'') 10 = Some [S ''short text'']
   \<and> chunk_text [] 0 = Some [[]]"
  using chunk_text_short [of "S ''short text''" 10] chunk_text_short [of "[]" 0]
  by (simp add: S_def)


section \<open>The translation paths\<close>

lemma google_translate_eq:
  "google_translate env n text to_lang from_lang = Inr (google_result env n text to_lang from_lang)"
  by (simp add: google_translate_def google_result_def split: sum.splits)

lemma call_google_eq:
  "call_google env self chunk to_lang from_lang =
     (Inr (google_result env (length (backend_calls self)) chunk to_lang from_lang),
      self\<lparr>backend_calls := backend_calls self @ [(Secondary, chunk)]\<rparr>)"
  by (simp add: call_google_def google_translate_eq)

lemma google_result_raises:
  "google_raises env chunk to_lang from_lang \<Longrightarrow> google_result env n chunk to_lang from_lang = chunk"
proof -
  assume "google_raises env chunk to_lang from_lang"
  then obtain e where "google_get env n from_lang to_lang chunk = Inl e"
    unfolding google_raises_def by blast
  then show ?thesis by (simp add: google_result_def google_try_def seq_def)
qed

lemma translate_chunk_spec:
  "\<exists>out self' new.
     translate_chunk env chunk to_lang from_lang translated_chunks self
       = (translated_chunks @ [out], self')
     \<and> backend_calls self' = backend_calls self @ new
     \<and> (use_google_translate self \<longrightarrow> calls_of Secondary new)
     \<and> translation_fail_count self \<le> translation_fail_count self'
     \<and> (use_google_translate self \<longrightarrow> use_google_translate self')
     \<and> translation_cache self' = translation_cache self
     \<and> (primary_raises env chunk to_lang from_lang \<and> google_raises env chunk to_lang from_lang
          \<longrightarrow> out = chunk)"
proof (cases "use_google_translate self")
  case True
  then show ?thesis
    by (simp add: translate_chunk_def call_google_eq calls_of_def google_result_raises)
next
  case False
  show ?thesis
  proof (cases "translator_translate env (length (backend_calls self)) to_lang from_lang chunk")
    case (Inl e)
    with False show ?thesis
      by (simp add: translate_chunk_def call_primary_def chunk_except_def call_google_eq
            failed_def google_result_raises)
  next
    case (Inr answer)
    have "\<not> primary_raises env chunk to_lang from_lang"
    proof
      assume "primary_raises env chunk to_lang from_lang"
      then obtain e where
        "translator_translate env (length (backend_calls self)) to_lang from_lang chunk = Inl e"
        unfolding primary_raises_def by blast
      with Inr show False by simp
    qed
    with False Inr show ?thesis
      by (simp add: translate_chunk_def call_primary_def call_google_eq quota_exceeded_def)
  qed
qed

lemma translate_chunks_spec:
  "\<exists>out self' new.
     translate_chunks env to_lang from_lang chunks translated_chunks self
       = (translated_chunks @ out, self')
     \<and> length out = length chunks
     \<and> backend_calls self' = backend_calls self @ new
     \<and> (use_google_translate self \<longrightarrow> calls_of Secondary new)
     \<and> translation_fail_count self \<le> translation_fail_count self'
     \<and> (use_google_translate self \<longrightarrow> use_google_translate self')
     \<and> translation_cache self' = translation_cache self
     \<and> (\<forall>c \<in> set chunks. primary_raises env c to_lang from_lang
            \<and> google_raises env c to_lang from_lang \<longrightarrow> c \<in> set out)"
proof (induction chunks arbitrary: translated_chunks self)
  case Nil
  show ?case by (simp add: calls_of_def)
next
  case (Cons chunk rest)
  from translate_chunk_spec [of env chunk to_lang from_lang translated_chunks self]
  obtain out1 self1 new1 where 1:
    "translate_chunk env chunk to_lang from_lang translated_chunks self
       = (translated_chunks @ [out1], self1)"
    "backend_calls self1 = backend_calls self @ new1"
    "use_google_translate self \<longrightarrow> calls_of Secondary new1"
    "translation_fail_count self \<le> translation_fail_count self1"
    "use_google_translate self \<longrightarrow> use_google_translate self1"
    "translation_cache self1 = translation_cache self"
    "primary_raises env chunk to_lang from_lang \<and> google_raises env chunk to_lang from_lang
          \<longrightarrow> out1 = chunk"
    by blast
  from Cons.IH [of "translated_chunks @ [out1]" self1]
  obtain out2 self2 new2 where 2:
    "translate_chunks env to_lang from_lang rest (translated_chunks @ [out1]) self1
       = ((translated_chunks @ [out1]) @ out2, self2)"
    "length out2 = length rest"
    "backend_calls self2 = backend_calls self1 @ new2"
    "use_google_translate self1 \<longrightarrow> calls_of Secondary new2"
    "translation_fail_count self1 \<le> translation_fail_count self2"
    "use_google_translate self1 \<longrightarrow> use_google_translate self2"
    "translation_cache self2 = translation_cache self1"
    "\<forall>c \<in> set rest. primary_raises env c to_lang from_lang
            \<and> google_raises env c to_lang from_lang \<longrightarrow> c \<in> set out2"
    by blast
  have "translate_chunks env to_lang from_lang (chunk # rest) translated_chunks self
       = (translated_chunks @ (out1 # out2), self2)"
    using 1(1) 2(1) by simp
  moreover have "length (out1 # out2) = length (chunk # rest)" using 2(2) by simp
  moreover have "backend_calls self2 = backend_calls self @ (new1 @ new2)"
    using 1(2) 2(3) by simp
  moreover have "use_google_translate self \<longrightarrow> calls_of Secondary (new1 @ new2)"
    using 1(3,5) 2(4) by (simp add: calls_of_def)
  moreover have "translation_fail_count self \<le> translation_fail_count self2"
    using 1(4) 2(5) by simp
  moreover have "use_google_translate self \<longrightarrow> use_google_translate self2"
    using 1(5) 2(6) by simp
  moreover have "translation_cache self2 = translation_cache self"
    using 1(6) 2(7) by simp
  moreover have "\<forall>c \<in> set (chunk # rest). primary_raises env c to_lang from_lang
            \<and> google_raises env c to_lang from_lang \<longrightarrow> c \<in> set (out1 # out2)"
    using 1(7) 2(8) by auto
  ultimately show ?case by blast
qed

lemma py_in_append:
  "py_in sub (pre @ sub @ post)"
proof (induction pre)
  case Nil
  show ?case
  proof (cases "sub @ post")
    case Nil
    then show ?thesis by simp
  next
    case (Cons a rest)
    have "take (length sub) (sub @ post) = sub" by simp
    with Cons show ?thesis by simp
  qed
next
  case (Cons p pre)
  then show ?case by simp
qed

lemma join_contains:
  "c \<in> set xs \<Longrightarrow> \<exists>pre post. join sep xs = pre @ c @ post"
proof (induction sep xs rule: join.induct)
  case (1 sep)
  then show ?case by simp
next
  case (2 sep x)
  then have "join sep [x] = [] @ c @ []" by simp
  then show ?case by blast
next
  case (3 sep x y ys)
  show ?case
  proof (cases "c = x")
    case True
    then have "join sep (x # y # ys) = [] @ c @ (sep @ join sep (y # ys))" by simp
    then show ?thesis by blast
  next
    case False
    with 3 obtain pre post where "join sep (y # ys) = pre @ c @ post" by auto
    then have "join sep (x # y # ys) = (x @ sep @ pre) @ c @ post" by simp
    then show ?thesis by blast
  qed
qed

lemma py_in_join:
  "c \<in> set xs \<Longrightarrow> py_in c (join sep xs)"
  using join_contains [of c xs sep] py_in_append by metis

lemma google_chunks_spec:
  "\<exists>out new.
     google_chunks env to_lang from_lang chunks translated_chunks self
       = (Inr (translated_chunks @ out),
          self\<lparr>backend_calls := backend_calls self @ new\<rparr>)
     \<and> length out = length chunks
     \<and> calls_of Secondary new
     \<and> (\<forall>c \<in> set chunks. google_raises env c to_lang from_lang \<longrightarrow> c \<in> set out)"
proof (induction chunks arbitrary: translated_chunks self)
  case Nil
  show ?case by (intro exI [of _ "[]"]) (simp add: calls_of_def)
next
  case (Cons chunk rest)
  define out1 where "out1 = google_result env (length (backend_calls self)) chunk to_lang from_lang"
  define self1 where "self1 = self\<lparr>backend_calls := backend_calls self @ [(Secondary, chunk)]\<rparr>"
  from Cons.IH [of "translated_chunks @ [out1]" self1]
  obtain out2 new2 where 2:
    "google_chunks env to_lang from_lang rest (translated_chunks @ [out1]) self1
       = (Inr ((translated_chunks @ [out1]) @ out2),
          self1\<lparr>backend_calls := backend_calls self1 @ new2\<rparr>)"
    "length out2 = length rest"
    "calls_of Secondary new2"
    "\<forall>c \<in> set rest. google_raises env c to_lang from_lang \<longrightarrow> c \<in> set out2"
    by blast
  have "google_chunks env to_lang from_lang (chunk # rest) translated_chunks self
       = (Inr (translated_chunks @ (out1 # out2)),
          self\<lparr>backend_calls := backend_calls self @ ((Secondary, chunk) # new2)\<rparr>)"
    using 2(1) by (simp add: call_google_eq out1_def self1_def)
  moreover have "length (out1 # out2) = length (chunk # rest)" using 2(2) by simp
  moreover have "calls_of Secondary ((Secondary, chunk) # new2)"
    using 2(3) by (simp add: calls_of_def)
  moreover have "\<forall>c \<in> set (chunk # rest). google_raises env c to_lang from_lang
       \<longrightarrow> c \<in> set (out1 # out2)"
    using 2(4) by (auto simp: out1_def google_result_raises)
  ultimately show ?case by blast
qed

lemma translate_single_spec:
  "\<exists>translated self' new.
     translate_single env self text chunk to_lang from_lang = (Inr translated, self')
     \<and> backend_calls self' = backend_calls self @ new
     \<and> translation_fail_count self \<le> translation_fail_count self'
     \<and> (use_google_translate self \<longrightarrow> use_google_translate self')
     \<and> translation_cache self' (cache_key text from_lang to_lang) = Some translated
     \<and> (primary_raises env chunk to_lang from_lang \<and> google_raises env chunk to_lang from_lang
          \<longrightarrow> translated = chunk)"
proof (cases "translator_translate env (length (backend_calls self)) to_lang from_lang chunk")
  case (Inl e)
  then show ?thesis
    by (simp add: translate_single_def call_primary_def single_except_def call_google_eq
          failed_def store_def google_result_raises)
next
  case (Inr answer)
  have "\<not> primary_raises env chunk to_lang from_lang"
  proof
    assume "primary_raises env chunk to_lang from_lang"
    then obtain e where
      "translator_translate env (length (backend_calls self)) to_lang from_lang chunk = Inl e"
      unfolding primary_raises_def by blast
    with Inr show False by simp
  qed
  with Inr show ?thesis
    by (simp add: translate_single_def call_primary_def call_google_eq quota_exceeded_def
          store_def)
qed

lemma py_in_self: "py_in c c"
  using py_in_append [of c "[]" "[]"] by simp

lemma chunk_text_chunks_nonempty:
  assumes "1 \<le> max_chunk_size" "text \<noteq> []" "chunk_text text max_chunk_size = Some chunks"
  shows "\<forall>c \<in> set chunks. c \<noteq> []"
proof (cases "length text \<le> max_chunk_size")
  case True
  with assms show ?thesis by (auto simp: chunk_text_def)
next
  case False
  from chunk_loop_spec [OF assms(1), of "text" 0 "[]"] assms(2,3) False
  show ?thesis by (auto simp: chunk_text_def)
qed

lemma translate_google_only_spec:
  "\<exists>translated new.
     translate_google_only env self text to_lang from_lang
       = Some (Inr translated,
               store (cache_key text from_lang to_lang) translated
                 (self\<lparr>backend_calls := backend_calls self @ new\<rparr>))
     \<and> calls_of Secondary new
     \<and> (\<forall>chunks c. chunk_text text 900 = Some chunks \<and> c \<in> set chunks
            \<and> google_raises env c to_lang from_lang \<longrightarrow> py_in c translated)"
proof -
  have "(1::nat) \<le> 900" by simp
  from chunk_text_spec [OF this, of "text"]
  obtain chunks where chunks: "chunk_text text 900 = Some chunks" by blast
  show ?thesis
  proof (cases "length chunks = 1")
    case True
    then obtain c0 where c0: "chunks = [c0]" by (cases chunks) auto
    define translated where
      "translated = google_result env (length (backend_calls self)) c0 to_lang from_lang"
    have "translate_google_only env self text to_lang from_lang
       = Some (Inr translated,
               store (cache_key text from_lang to_lang) translated
                 (self\<lparr>backend_calls := backend_calls self @ [(Secondary, c0)]\<rparr>))"
      by (simp add: translate_google_only_def chunks c0 call_google_eq translated_def)
    moreover have "calls_of Secondary [(Secondary, c0)]" by (simp add: calls_of_def)
    moreover have "\<forall>chunks c. chunk_text text 900 = Some chunks \<and> c \<in> set chunks
            \<and> google_raises env c to_lang from_lang \<longrightarrow> py_in c translated"
      by (auto simp: chunks c0 translated_def google_result_raises py_in_self)
    ultimately show ?thesis by blast
  next
    case False
    from google_chunks_spec [of env to_lang from_lang chunks "[]" self]
    obtain out new where out:
      "google_chunks env to_lang from_lang chunks [] self
         = (Inr out, self\<lparr>backend_calls := backend_calls self @ new\<rparr>)"
      "calls_of Secondary new"
      "\<forall>c \<in> set chunks. google_raises env c to_lang from_lang \<longrightarrow> c \<in> set out"
      by auto
    have "translate_google_only env self text to_lang from_lang
       = Some (Inr (join (S '' '') out),
               store (cache_key text from_lang to_lang) (join (S '' '') out)
                 (self\<lparr>backend_calls := backend_calls self @ new\<rparr>))"
      using False by (simp add: translate_google_only_def chunks out(1) Let_def)
    moreover have "\<forall>chunks c. chunk_text text 900 = Some chunks \<and> c \<in> set chunks
            \<and> google_raises env c to_lang from_lang \<longrightarrow> py_in c (join (S '' '') out)"
      using out(3) by (auto simp: chunks py_in_join)
    ultimately show ?thesis using out(2) by blast
  qed
qed

lemma translate_try_spec:
  "\<exists>translated self' new.
     translate_try env self text to_lang from_lang = Some (Inr translated, self')
     \<and> backend_calls self' = backend_calls self @ new
     \<and> translation_fail_count self \<le> translation_fail_count self'
     \<and> (use_google_translate self \<longrightarrow> use_google_translate self')
     \<and> translation_cache self' (cache_key text from_lang to_lang) = Some translated
     \<and> (\<forall>chunks c. chunk_text text 450 = Some chunks \<and> c \<in> set chunks
            \<and> primary_raises env c to_lang from_lang \<and> google_raises env c to_lang from_lang
          \<longrightarrow> py_in c translated)"
proof -
  have "(1::nat) \<le> 450" by simp
  from chunk_text_spec [OF this, of "text"]
  obtain chunks where chunks: "chunk_text text 450 = Some chunks" by blast
  show ?thesis
  proof (cases "length chunks = 1")
    case True
    then obtain c0 where c0: "chunks = [c0]" by (cases chunks) auto
    from translate_single_spec [of env self "text" c0 to_lang from_lang]
    obtain translated self' new where 1:
      "translate_single env self text c0 to_lang from_lang = (Inr translated, self')"
      "backend_calls self' = backend_calls self @ new"
      "translation_fail_count self \<le> translation_fail_count self'"
      "use_google_translate self \<longrightarrow> use_google_translate self'"
      "translation_cache self' (cache_key text from_lang to_lang) = Some translated"
      "primary_raises env c0 to_lang from_lang \<and> google_raises env c0 to_lang from_lang
          \<longrightarrow> translated = c0"
      by blast
    have "translate_try env self text to_lang from_lang = Some (Inr translated, self')"
      by (simp add: translate_try_def chunks c0 1(1))
    moreover have "\<forall>chunks c. chunk_text text 450 = Some chunks \<and> c \<in> set chunks
            \<and> primary_raises env c to_lang from_lang \<and> google_raises env c to_lang from_lang
          \<longrightarrow> py_in c translated"
      using 1(6) by (auto simp: chunks c0 py_in_self)
    ultimately show ?thesis using 1(2,3,4,5) by blast
  next
    case False
    from translate_chunks_spec [of env to_lang from_lang chunks "[]" self]
    obtain out self1 new where 2:
      "translate_chunks env to_lang from_lang chunks [] self = (out, self1)"
      "backend_calls self1 = backend_calls self @ new"
      "translation_fail_count self \<le> translation_fail_count self1"
      "use_google_translate self \<longrightarrow> use_google_translate self1"
      "\<forall>c \<in> set chunks. primary_raises env c to_lang from_lang
            \<and> google_raises env c to_lang from_lang \<longrightarrow> c \<in> set out"
      by auto
    define translated where "translated = join (S '' '') out"
    define self' where "self' = store (cache_key text from_lang to_lang) translated self1"
    have "translate_try env self text to_lang from_lang = Some (Inr translated, self')"
      using False by (simp add: translate_try_def chunks 2(1) Let_def translated_def self'_def)
    moreover have "backend_calls self' = backend_calls self @ new"
      using 2(2) by (simp add: self'_def store_def)
    moreover have "translation_fail_count self \<le> translation_fail_count self'"
      using 2(3) by (simp add: self'_def store_def)
    moreover have "use_google_translate self \<longrightarrow> use_google_translate self'"
      using 2(4) by (simp add: self'_def store_def)
    moreover have "translation_cache self' (cache_key text from_lang to_lang) = Some translated"
      by (simp add: self'_def store_def)
    moreover have "\<forall>chunks c. chunk_text text 450 = Some chunks \<and> c \<in> set chunks
            \<and> primary_raises env c to_lang from_lang \<and> google_raises env c to_lang from_lang
          \<longrightarrow> py_in c translated"
      using 2(5) by (auto simp: chunks translated_def py_in_join)
    ultimately show ?thesis by blast
  qed
qed

lemma translate_text_spec:
  "\<exists>translated self' new.
     translate_text env self text to_lang from_lang = Some (Inr translated, self')
     \<and> backend_calls self' = backend_calls self @ new
     \<and> translation_fail_count self \<le> translation_fail_count self'
     \<and> (use_google_translate self \<longrightarrow> use_google_translate self')
     \<and> (3 \<le> translation_fail_count self \<or> use_google_translate self
          \<longrightarrow> calls_of Secondary new)
     \<and> (text \<noteq> [] \<and> \<not> (to_lang = S ''zh'' \<and> contains_chinese text)
          \<longrightarrow> translation_cache self' (cache_key text from_lang to_lang) = Some translated)
     \<and> (text \<noteq> [] \<and> \<not> (to_lang = S ''zh'' \<and> contains_chinese text)
          \<and> translation_cache self (cache_key text from_lang to_lang) = None
          \<longrightarrow> (\<forall>chunks c.
                 chunk_text text
                   (if 3 \<le> translation_fail_count self \<or> use_google_translate self
                    then 900 else 450) = Some chunks
                 \<and> c \<in> set chunks
                 \<and> primary_raises env c to_lang from_lang
                 \<and> google_raises env c to_lang from_lang
                 \<longrightarrow> py_in c translated))"
proof -
  let ?key = "cache_key text from_lang to_lang"
  consider (empty) "text = []"
    | (chinese) "text \<noteq> []" "to_lang = S ''zh'' \<and> contains_chinese text"
    | (cached) cached where "text \<noteq> []" "\<not> (to_lang = S ''zh'' \<and> contains_chinese text)"
        "translation_cache self ?key = Some cached"
    | (sticky) "text \<noteq> []" "\<not> (to_lang = S ''zh'' \<and> contains_chinese text)"
        "translation_cache self ?key = None"
        "3 \<le> translation_fail_count self \<or> use_google_translate self"
    | (ordinary) "text \<noteq> []" "\<not> (to_lang = S ''zh'' \<and> contains_chinese text)"
        "translation_cache self ?key = None"
        "\<not> (3 \<le> translation_fail_count self \<or> use_google_translate self)"
    by (cases "translation_cache self ?key") auto
  then show ?thesis
  proof cases
    case empty
    then have "translate_text env self text to_lang from_lang = Some (Inr [], self)"
      by (auto simp: translate_text_def)
    with empty show ?thesis
      by (intro exI [of _ "[]"] exI [of _ self]) (simp add: calls_of_def)
  next
    case chinese
    then have "translate_text env self text to_lang from_lang = Some (Inr text, self)"
      by (auto simp: translate_text_def)
    with chinese show ?thesis
      by (intro exI [of _ "text"] exI [of _ self] exI [of _ "[]"]) (simp add: calls_of_def)
  next
    case cached
    then have "translate_text env self text to_lang from_lang = Some (Inr cached, self)"
      by (auto simp: translate_text_def)
    with cached show ?thesis
      by (intro exI [of _ cached] exI [of _ self] exI [of _ "[]"]) (simp add: calls_of_def)
  next
    case sticky
    define self0 where "self0 = self\<lparr>use_google_translate := True\<rparr>"
    from translate_google_only_spec [of env self0 "text" to_lang from_lang]
    obtain translated new where g:
      "translate_google_only env self0 text to_lang from_lang
         = Some (Inr translated,
                 store ?key translated (self0\<lparr>backend_calls := backend_calls self0 @ new\<rparr>))"
      "calls_of Secondary new"
      "\<forall>chunks c. chunk_text text 900 = Some chunks \<and> c \<in> set chunks
            \<and> google_raises env c to_lang from_lang \<longrightarrow> py_in c translated"
      by blast
    define self' where
      "self' = store ?key translated (self0\<lparr>backend_calls := backend_calls self0 @ new\<rparr>)"
    have "translate_text env self text to_lang from_lang = Some (Inr translated, self')"
      using sticky g(1) by (auto simp: translate_text_def self0_def self'_def)
    moreover have "backend_calls self' = backend_calls self @ new"
      by (simp add: self'_def self0_def store_def)
    moreover have "translation_fail_count self \<le> translation_fail_count self'"
      by (simp add: self'_def self0_def store_def)
    moreover have "use_google_translate self'"
      by (simp add: self'_def self0_def store_def)
    moreover have "translation_cache self' ?key = Some translated"
      by (simp add: self'_def store_def)
    ultimately show ?thesis using sticky g(2,3) by (intro exI conjI) auto
  next
    case ordinary
    from translate_try_spec [of env self "text" to_lang from_lang]
    obtain translated self' new where t:
      "translate_try env self text to_lang from_lang = Some (Inr translated, self')"
      "backend_calls self' = backend_calls self @ new"
      "translation_fail_count self \<le> translation_fail_count self'"
      "use_google_translate self \<longrightarrow> use_google_translate self'"
      "translation_cache self' ?key = Some translated"
      "\<forall>chunks c. chunk_text text 450 = Some chunks \<and> c \<in> set chunks
            \<and> primary_raises env c to_lang from_lang \<and> google_raises env c to_lang from_lang
          \<longrightarrow> py_in c translated"
      by blast
    have "translate_text env self text to_lang from_lang = Some (Inr translated, self')"
      using ordinary t(1) by (auto simp: translate_text_def)
    then show ?thesis using ordinary t(2-6) by (intro exI conjI) auto
  qed
qed









text \<open>A round answered with the quota message, and the rounds after it.\<close>

lemma quota_round:
  assumes "translator_translate env (length (backend_calls self)) to_lang from_lang chunk
           = Inr answer"
    and "is_quota_message answer"
  shows "\<exists>self1 self2.
           (\<not> use_google_translate self \<longrightarrow>
              translate_chunk env chunk to_lang from_lang translated_chunks self
                = (translated_chunks
                     @ [google_result env (Suc (length (backend_calls self))) chunk
                          to_lang from_lang], self1))
         \<and> translation_fail_count self1 = translation_fail_count self + 1
         \<and> use_google_translate self1
         \<and> translate_single env self text chunk to_lang from_lang
             = (Inr (google_result env (Suc (length (backend_calls self))) chunk
                       to_lang from_lang), self2)
         \<and> translation_fail_count self2 = translation_fail_count self + 1
         \<and> use_google_translate self2
         \<and> translation_cache self2 (cache_key text from_lang to_lang)
             = Some (google_result env (Suc (length (backend_calls self))) chunk
                       to_lang from_lang)"
proof -
  let ?fallback = "google_result env (Suc (length (backend_calls self))) chunk to_lang from_lang"
  define self0 where
    "self0 = quota_exceeded (self\<lparr>backend_calls := backend_calls self @ [(Primary, chunk)]\<rparr>)"
  define self1 where
    "self1 = self0\<lparr>backend_calls := backend_calls self0 @ [(Secondary, chunk)]\<rparr>"
  define self2 where "self2 = store (cache_key text from_lang to_lang) ?fallback self1"
  have "\<not> use_google_translate self \<longrightarrow>
          translate_chunk env chunk to_lang from_lang translated_chunks self
             = (translated_chunks @ [?fallback], self1)"
    using assms
    by (simp add: translate_chunk_def call_primary_def call_google_eq self0_def
          self1_def quota_exceeded_def)
  moreover have "translation_fail_count self1 = translation_fail_count self + 1"
    by (simp add: self1_def self0_def quota_exceeded_def)
  moreover have "use_google_translate self1"
    by (simp add: self1_def self0_def quota_exceeded_def)
  moreover have "translate_single env self text chunk to_lang from_lang = (Inr ?fallback, self2)"
    using assms
    by (simp add: translate_single_def call_primary_def call_google_eq self0_def
          self1_def self2_def quota_exceeded_def)
  moreover have "translation_fail_count self2 = translation_fail_count self + 1"
    by (simp add: self2_def self1_def self0_def quota_exceeded_def store_def)
  moreover have "use_google_translate self2"
    by (simp add: self2_def self1_def self0_def quota_exceeded_def store_def)
  moreover have "translation_cache self2 (cache_key text from_lang to_lang) = Some ?fallback"
    by (simp add: self2_def store_def)
  ultimately show ?thesis by blast
qed

lemma translate_chunks_append:
  "translate_chunks env to_lang from_lang (xs @ ys) translated_chunks self
     = (case translate_chunks env to_lang from_lang xs translated_chunks self of
          (translated_chunks1, self1) \<Rightarrow>
            translate_chunks env to_lang from_lang ys translated_chunks1 self1)"
  by (induction xs arbitrary: translated_chunks self) (simp_all split: prod.splits)

lemma translate_chunks_google:
  "use_google_translate self \<Longrightarrow>
   \<exists>out self'.
     translate_chunks env to_lang from_lang chunks translated_chunks self
       = (translated_chunks @ out, self')
     \<and> length out = length chunks
     \<and> translation_fail_count self' = translation_fail_count self
     \<and> use_google_translate self'"
proof (induction chunks arbitrary: translated_chunks self)
  case Nil
  then show ?case by simp
next
  case (Cons chunk rest)
  define out1 where "out1 = google_result env (length (backend_calls self)) chunk to_lang from_lang"
  define self1 where "self1 = self\<lparr>backend_calls := backend_calls self @ [(Secondary, chunk)]\<rparr>"
  have step: "translate_chunk env chunk to_lang from_lang translated_chunks self
      = (translated_chunks @ [out1], self1)"
    using Cons.prems by (simp add: translate_chunk_def call_google_eq out1_def self1_def)
  have "use_google_translate self1" using Cons.prems by (simp add: self1_def)
  from Cons.IH [OF this, of "translated_chunks @ [out1]"]
  obtain out2 self2 where 2:
    "translate_chunks env to_lang from_lang rest (translated_chunks @ [out1]) self1
       = ((translated_chunks @ [out1]) @ out2, self2)"
    "length out2 = length rest"
    "translation_fail_count self2 = translation_fail_count self1"
    "use_google_translate self2"
    by blast
  have "translate_chunks env to_lang from_lang (chunk # rest) translated_chunks self
       = (translated_chunks @ (out1 # out2), self2)"
    using step 2(1) by simp
  moreover have "length (out1 # out2) = length (chunk # rest)" using 2(2) by simp
  moreover have "translation_fail_count self2 = translation_fail_count self"
    using 2(3) by (simp add: self1_def)
  ultimately show ?case using 2(4) by blast
qed

section \<open>Claims about translation\<close>




text \<open>The definitions an example unfolds.\<close>

lemmas eval_defs =
  translate_text_def translate_try_def translate_google_only_def chunk_text_def
  translate_single_def call_primary_def single_except_def call_google_def
  google_translate_def google_try_def seq_def init_def failed_def quota_exceeded_def
  store_def cache_key_def contains_chinese_def S_def is_quota_message_def upper_def
  upper_char_def


text \<open>
  C8. With \<open>to_lang = "zh"\<close>, a text that holds a character between U+4E00 and U+9FFF
  is returned as it is, and the instance is unchanged: no request is made. So it is for
  the two characters U+4F60 U+597D.
\<close>

theorem already_chinese:
  "((\<exists>c \<in> set text. 19968 \<le> c \<and> c \<le> 40959)
      \<longrightarrow> translate_text env self text (S ''zh'') from_lang = Some (Inr text, self))
   \<and> translate_text env self [20320, 22909] (S ''zh'') from_lang
       = Some (Inr [20320, 22909], self)"
proof -
  have "translate_text env self text (S ''zh'') from_lang = Some (Inr text, self)"
    if "\<exists>c \<in> set text. 19968 \<le> c \<and> c \<le> 40959"
  proof -
    from that have "text \<noteq> []" by auto
    moreover from that have "contains_chinese text"
      by (auto simp: contains_chinese_def list_ex_iff)
    ultimately show ?thesis by (simp add: translate_text_def)
  qed
  moreover have "translate_text env self [20320, 22909] (S ''zh'') from_lang
       = Some (Inr [20320, 22909], self)"
    by (simp add: translate_text_def contains_chinese_def)
  ultimately show ?thesis by blast
qed

text \<open>A text of one Latin letter and two Chinese characters, on a fresh instance.\<close>

theorem already_chinese_witness:
  "(\<exists>c \<in> set [97, 20320, 22909]. 19968 \<le> c \<and> c \<le> (40959::nat))
   \<and> translate_text quota_env init [97, 20320, 22909] (S ''zh'') (S ''en'')
       = Some (Inr [97, 20320, 22909], init)
   \<and> backend_calls init = []"
  using already_chinese [of "[97, 20320, 22909]" quota_env init "S ''en''"]
  by (simp add: init_def)


text \<open>
  C2. Take a call of \<open>translate_text\<close> that reaches the primary path, the chunks of its
  text, and any one of them, number \<open>i\<close>. Let the instance after the rounds for the
  chunks before it not have the flag set, so that the primary service is asked for chunk
  \<open>i\<close>, and let the service answer, without raising, with a text whose upper case
  contains \<open>MYMEMORY WARNING\<close> or \<open>QUOTA EXCEEDED\<close>. Then the round for that chunk
  raises the failure count by exactly 1 and sets the flag; the call returns the chunk
  results joined by spaces, and the result for chunk \<open>i\<close> is what \<open>google_translate\<close>
  returns for it; and after the call the count is one more than before that round, the
  flag is set and the result is in the cache.
\<close>

theorem quota_message_switches:
  assumes call: "text \<noteq> []" "\<not> (to_lang = S ''zh'' \<and> contains_chinese text)"
      "translation_cache self (cache_key text from_lang to_lang) = None"
      "\<not> (3 \<le> translation_fail_count self \<or> use_google_translate self)"
    and chunks: "chunk_text text 450 = Some chunks" "i < length chunks"
    and before: "translate_chunks env to_lang from_lang (take i chunks) [] self
                   = (translated_chunks, self_i)"
      "\<not> use_google_translate self_i"
    and answer: "translator_translate env (length (backend_calls self_i)) to_lang from_lang
                   (chunks ! i) = Inr answer"
    and quota: "py_in (S ''MYMEMORY WARNING'') (upper answer)
                  \<or> py_in (S ''QUOTA EXCEEDED'') (upper answer)"
  shows "\<exists>fallback round out translated self'.
           google_translate env (Suc (length (backend_calls self_i))) (chunks ! i)
             to_lang from_lang = Inr fallback
         \<and> translate_chunk env (chunks ! i) to_lang from_lang translated_chunks self_i
             = (translated_chunks @ [fallback], round)
         \<and> translation_fail_count round = translation_fail_count self_i + 1
         \<and> use_google_translate round
         \<and> translate_text env self text to_lang from_lang = Some (Inr translated, self')
         \<and> translated = join (S '' '') out
         \<and> length out = length chunks
         \<and> out ! i = fallback
         \<and> translation_fail_count self' = translation_fail_count self_i + 1
         \<and> use_google_translate self'
         \<and> translation_cache self' (cache_key text from_lang to_lang) = Some translated"
proof -
  let ?key = "cache_key text from_lang to_lang"
  define fallback where
    "fallback = google_result env (Suc (length (backend_calls self_i))) (chunks ! i)
                  to_lang from_lang"
  from quota have q: "is_quota_message answer" by (simp add: is_quota_message_def)
  have g: "google_translate env (Suc (length (backend_calls self_i))) (chunks ! i)
             to_lang from_lang = Inr fallback"
    by (simp add: google_translate_eq fallback_def)
  from quota_round [OF answer q, of translated_chunks "text"] before(2)
  obtain round self2 where r:
    "translate_chunk env (chunks ! i) to_lang from_lang translated_chunks self_i
       = (translated_chunks @ [fallback], round)"
    "translation_fail_count round = translation_fail_count self_i + 1"
    "use_google_translate round"
    "translate_single env self_i text (chunks ! i) to_lang from_lang = (Inr fallback, self2)"
    "translation_fail_count self2 = translation_fail_count self_i + 1"
    "use_google_translate self2"
    "translation_cache self2 ?key = Some fallback"
    unfolding fallback_def by blast
  have whole: "\<exists>out translated self'.
           translate_text env self text to_lang from_lang = Some (Inr translated, self')
         \<and> translated = join (S '' '') out
         \<and> length out = length chunks
         \<and> out ! i = fallback
         \<and> translation_fail_count self' = translation_fail_count self_i + 1
         \<and> use_google_translate self'
         \<and> translation_cache self' ?key = Some translated"
  proof (cases "length chunks = 1")
    case True
    with chunks(2) have i: "i = 0" by simp
    with before(1) have same: "self_i = self" by simp
    have "translate_text env self text to_lang from_lang = Some (Inr fallback, self2)"
      using call chunks(1) True r(4) i same
      by (auto simp: translate_text_def translate_try_def)
    moreover have "fallback = join (S '' '') [fallback]" by simp
    moreover have "length [fallback] = length chunks" using True by simp
    moreover have "[fallback] ! i = fallback" using i by simp
    ultimately show ?thesis using r(5,6,7) by blast
  next
    case False
    let ?rest = "drop (Suc i) chunks"
    have split: "chunks = take i chunks @ chunks ! i # ?rest"
      using chunks(2) by (simp add: id_take_nth_drop)
    from translate_chunks_spec [of env to_lang from_lang "take i chunks" "[]" self] before(1)
    have len: "length translated_chunks = i" using chunks(2) by auto
    from translate_chunks_google [OF r(3), of env to_lang from_lang ?rest
        "translated_chunks @ [fallback]"]
    obtain out2 self3 where 3:
      "translate_chunks env to_lang from_lang ?rest (translated_chunks @ [fallback]) round
         = ((translated_chunks @ [fallback]) @ out2, self3)"
      "length out2 = length ?rest"
      "translation_fail_count self3 = translation_fail_count round"
      "use_google_translate self3"
      by blast
    define out where "out = translated_chunks @ fallback # out2"
    define translated where "translated = join (S '' '') out"
    define self' where "self' = store ?key translated self3"
    have "translate_chunks env to_lang from_lang
            (take i chunks @ chunks ! i # ?rest) [] self = (out, self3)"
      by (simp add: translate_chunks_append before(1) r(1) 3(1) out_def)
    with split have loop: "translate_chunks env to_lang from_lang chunks [] self = (out, self3)"
      by simp
    have "translate_text env self text to_lang from_lang = Some (Inr translated, self')"
      using call chunks(1) False loop
      by (auto simp: translate_text_def translate_try_def Let_def translated_def self'_def)
    moreover have "length out = length chunks"
      using len 3(2) chunks(2) by (simp add: out_def)
    moreover have "out ! i = fallback"
      using len by (simp add: out_def nth_append)
    moreover have "translation_fail_count self' = translation_fail_count self_i + 1"
      using 3(3) r(2) by (simp add: self'_def store_def)
    moreover have "use_google_translate self'"
      using 3(4) by (simp add: self'_def store_def)
    moreover have "translation_cache self' ?key = Some translated"
      by (simp add: self'_def store_def)
    ultimately show ?thesis using translated_def by blast
  qed
  from g r(1,2,3) whole show ?thesis by blast
qed

text \<open>A text with no space and no newline is cut at the end of every window.\<close>

lemma sentence_end_no_boundary:
  assumes "set text \<inter> {10, 32} = {}"
  shows "sentence_end text max_chunk_size start = int (start + max_chunk_size) - 1"
proof -
  have "rfind text sub start (start + max_chunk_size) = - 1"
    if "sub \<noteq> []" "set sub \<inter> {10, 32} \<noteq> {}" "length sub \<le> 2" for sub
  proof -
    have False if "occurs_at text sub i" for i
    proof -
      from that have "sub = take (length sub) (drop i text)" by (simp add: occurs_at_def)
      then have "set sub \<subseteq> set text"
        by (metis set_drop_subset set_take_subset subset_trans)
      with assms \<open>set sub \<inter> {10, 32} \<noteq> {}\<close> show False by auto
    qed
    then have "filter (occurs_at text sub) xs = []" for xs by (auto simp: filter_empty_conv)
    then show ?thesis by (simp add: rfind_def)
  qed
  then show ?thesis by (simp add: sentence_end_def S_def)
qed

lemma chunk_text_451:
  "chunk_text (replicate 451 (97::nat)) 450 = Some [replicate 450 97, [97]]"
proof -
  let ?t = "replicate 451 (97::nat)"
  have se: "sentence_end ?t 450 0 = 449"
    by (subst sentence_end_no_boundary) simp_all
  have 2: "chunk_loop ?t 450 450 [replicate 450 97] = Some [replicate 450 97, [97]]"
    by (subst chunk_loop.simps) simp
  have "replicate 450 (97::nat) = take 450 ?t" by simp
  have 1: "chunk_loop ?t 450 0 [] = chunk_loop ?t 450 450 [replicate 450 97]"
    by (subst chunk_loop.simps) (simp add: se slice_def)
  show ?thesis by (simp add: chunk_text_def 1 2)
qed

text \<open>
  A text of two chunks where the primary service translates the first chunk and answers
  the second with the quota message in mixed case; and the text \<open>hello\<close>, of one chunk,
  answered with the quota message.
\<close>

theorem quota_message_switches_witness:
  "replicate 451 97 \<noteq> ([]::ustr)
   \<and> \<not> (S ''zh'' = S ''zh'' \<and> contains_chinese (replicate 451 97))
   \<and> translation_cache init (cache_key (replicate 451 97) (S ''en'') (S ''zh'')) = None
   \<and> \<not> (3 \<le> translation_fail_count init \<or> use_google_translate init)
   \<and> chunk_text (replicate 451 97) 450 = Some [replicate 450 97, [97]]
   \<and> (1::nat) < length [replicate 450 (97::nat), [97]]
   \<and> translate_chunks late_quota_env (S ''zh'') (S ''en'')
         (take 1 [replicate 450 97, [97]]) [] init
       = ([S ''ok''], init\<lparr>backend_calls := [(Primary, replicate 450 97)]\<rparr>)
   \<and> \<not> use_google_translate (init\<lparr>backend_calls := [(Primary, replicate 450 97)]\<rparr>)
   \<and> translator_translate late_quota_env
         (length (backend_calls (init\<lparr>backend_calls := [(Primary, replicate 450 97)]\<rparr>)))
         (S ''zh'') (S ''en'') ([replicate 450 97, [97]] ! 1)
       = Inr (S ''MyMemory Warning: quota exceeded'')
   \<and> (py_in (S ''MYMEMORY WARNING'') (upper (S ''MyMemory Warning: quota exceeded''))
        \<or> py_in (S ''QUOTA EXCEEDED'') (upper (S ''MyMemory Warning: quota exceeded'')))
   \<and> py_in (S ''MYMEMORY WARNING'') (upper (S ''MYMEMORY WARNING: QUOTA EXCEEDED''))
   \<and> (\<exists>fallback out translated self'.
         google_translate late_quota_env 2 [97] (S ''zh'') (S ''en'') = Inr fallback
       \<and> translate_text late_quota_env init (replicate 451 97) (S ''zh'') (S ''en'')
           = Some (Inr translated, self')
       \<and> translated = join (S '' '') out
       \<and> length out = 2
       \<and> out ! 1 = fallback
       \<and> translation_fail_count self' = 1
       \<and> use_google_translate self')
   \<and> (case translate_text late_quota_env init (replicate 451 97) (S ''zh'') (S ''en'') of
         None \<Rightarrow> False
       | Some (result, self') \<Rightarrow>
           result = Inr (S ''ok '' @ [20320, 22909])
           \<and> translation_fail_count self' = 1
           \<and> use_google_translate self'
           \<and> backend_calls self'
               = [(Primary, replicate 450 97), (Primary, [97]), (Secondary, [97])])
   \<and> (case translate_text quota_env init (S ''hello'') (S ''zh'') (S ''en'') of
         None \<Rightarrow> False
       | Some (result, self') \<Rightarrow>
           result = Inr [20320, 22909]
           \<and> translation_fail_count self' = 1
           \<and> use_google_translate self'
           \<and> backend_calls self' = [(Primary, S ''hello''), (Secondary, S ''hello'')])"
proof -
  let ?t = "replicate 451 (97::nat)"
  let ?chunks = "[replicate 450 (97::nat), [97]]"
  let ?self_i = "init\<lparr>backend_calls := [(Primary, replicate 450 97)]\<rparr>"
  have h1: "?t \<noteq> []" by simp
  have h2: "\<not> (S ''zh'' = S ''zh'' \<and> contains_chinese ?t)"
    by (simp add: contains_chinese_def list_ex_iff)
  have h3: "translation_cache init (cache_key ?t (S ''en'') (S ''zh'')) = None"
    by (simp add: init_def)
  have h4: "\<not> (3 \<le> translation_fail_count init \<or> use_google_translate init)"
    by (simp add: init_def)
  have h5: "chunk_text ?t 450 = Some ?chunks" by (rule chunk_text_451)
  have h6: "(1::nat) < length ?chunks" by simp
  have h7: "translate_chunks late_quota_env (S ''zh'') (S ''en'') (take 1 ?chunks) [] init
       = ([S ''ok''], ?self_i)"
    by (simp add: translate_chunk_def call_primary_def late_quota_env_def init_def
          is_quota_message_def upper_def upper_char_def S_def)
  have h8: "\<not> use_google_translate ?self_i" by (simp add: init_def)
  have h9: "translator_translate late_quota_env (length (backend_calls ?self_i))
         (S ''zh'') (S ''en'') (?chunks ! 1) = Inr (S ''MyMemory Warning: quota exceeded'')"
    by (simp add: late_quota_env_def)
  have h10: "py_in (S ''MYMEMORY WARNING'') (upper (S ''MyMemory Warning: quota exceeded''))
        \<or> py_in (S ''QUOTA EXCEEDED'') (upper (S ''MyMemory Warning: quota exceeded''))"
    by (simp add: S_def upper_def upper_char_def)
  have h11: "py_in (S ''MYMEMORY WARNING'') (upper (S ''MYMEMORY WARNING: QUOTA EXCEEDED''))"
    by (simp add: S_def upper_def upper_char_def)
  have run: "(case translate_text late_quota_env init ?t (S ''zh'') (S ''en'') of
         None \<Rightarrow> False
       | Some (result, self') \<Rightarrow>
           result = Inr (S ''ok '' @ [20320, 22909])
           \<and> translation_fail_count self' = 1
           \<and> use_google_translate self'
           \<and> backend_calls self'
               = [(Primary, replicate 450 97), (Primary, [97]), (Secondary, [97])])"
    by (simp add: translate_text_def translate_try_def chunk_text_451 translate_chunk_def
          call_primary_def call_google_def google_translate_def google_try_def seq_def
          late_quota_env_def init_def store_def cache_key_def contains_chinese_def
          quota_exceeded_def list_ex_iff is_quota_message_def upper_def upper_char_def
          S_def Let_def)
  have run1: "(case translate_text quota_env init (S ''hello'') (S ''zh'') (S ''en'') of
         None \<Rightarrow> False
       | Some (result, self') \<Rightarrow>
           result = Inr [20320, 22909]
           \<and> translation_fail_count self' = 1
           \<and> use_google_translate self'
           \<and> backend_calls self' = [(Primary, S ''hello''), (Secondary, S ''hello'')])"
    by (simp add: eval_defs quota_env_def)
  from quota_message_switches [OF h1 h2 h3 h4 h5 h6 h7 h8 h9 h10]
  obtain fallback out translated self' where c:
    "google_translate late_quota_env (Suc (length (backend_calls ?self_i))) (?chunks ! 1)
       (S ''zh'') (S ''en'') = Inr fallback"
    "translate_text late_quota_env init ?t (S ''zh'') (S ''en'') = Some (Inr translated, self')"
    "translated = join (S '' '') out"
    "length out = length ?chunks"
    "out ! 1 = fallback"
    "translation_fail_count self' = translation_fail_count ?self_i + 1"
    "use_google_translate self'"
    by blast
  from c(1) have c1: "google_translate late_quota_env 2 [97] (S ''zh'') (S ''en'') = Inr fallback"
    by (simp add: numeral_2_eq_2)
  from c(4) have c4: "length out = 2" by simp
  from c(6) have c6: "translation_fail_count self' = 1" by (simp add: init_def)
  from c1 c(2,3) c4 c(5) c6 c(7)
  have ex: "\<exists>fallback out translated self'.
         google_translate late_quota_env 2 [97] (S ''zh'') (S ''en'') = Inr fallback
       \<and> translate_text late_quota_env init ?t (S ''zh'') (S ''en'')
           = Some (Inr translated, self')
       \<and> translated = join (S '' '') out
       \<and> length out = 2
       \<and> out ! 1 = fallback
       \<and> translation_fail_count self' = 1
       \<and> use_google_translate self'"
    by blast
  from h1 h2 h3 h4 h5 h6 h7 h8 h9 h10 h11 ex run run1 show ?thesis by blast
qed

text \<open>
  C3. Every call of \<open>translate_text\<close> returns, and returns a string: it neither runs
  forever nor raises. And when a call gets past the shortcuts and the cache, and both
  services raise on every request for one of the chunks of the text, that chunk is not
  empty and the string returned contains it, so the string is not empty either.
\<close>

theorem translate_text_degrades:
  "(\<exists>translated self'.
      translate_text env self text to_lang from_lang = Some (Inr translated, self'))
   \<and> (text \<noteq> [] \<and> \<not> (to_lang = S ''zh'' \<and> contains_chinese text)
        \<and> translation_cache self (cache_key text from_lang to_lang) = None
        \<and> chunk_text text
             (if 3 \<le> translation_fail_count self \<or> use_google_translate self
              then 900 else 450) = Some chunks
        \<and> c \<in> set chunks
        \<and> primary_raises env c to_lang from_lang
        \<and> google_raises env c to_lang from_lang
      \<longrightarrow> (\<exists>translated self'.
             translate_text env self text to_lang from_lang = Some (Inr translated, self')
             \<and> c \<noteq> [] \<and> py_in c translated \<and> translated \<noteq> []))"
proof -
  from translate_text_spec [of env self "text" to_lang from_lang]
  obtain translated self' where 1:
    "translate_text env self text to_lang from_lang = Some (Inr translated, self')"
    "text \<noteq> [] \<and> \<not> (to_lang = S ''zh'' \<and> contains_chinese text)
          \<and> translation_cache self (cache_key text from_lang to_lang) = None
          \<longrightarrow> (\<forall>chunks c.
                 chunk_text text
                   (if 3 \<le> translation_fail_count self \<or> use_google_translate self
                    then 900 else 450) = Some chunks
                 \<and> c \<in> set chunks
                 \<and> primary_raises env c to_lang from_lang
                 \<and> google_raises env c to_lang from_lang
                 \<longrightarrow> py_in c translated)"
    by blast
  have "c \<noteq> [] \<and> py_in c translated \<and> translated \<noteq> []"
    if h: "text \<noteq> []" "\<not> (to_lang = S ''zh'' \<and> contains_chinese text)"
      "translation_cache self (cache_key text from_lang to_lang) = None"
      "chunk_text text
             (if 3 \<le> translation_fail_count self \<or> use_google_translate self
              then 900 else 450) = Some chunks"
      "c \<in> set chunks"
      "primary_raises env c to_lang from_lang"
      "google_raises env c to_lang from_lang"
  proof -
    have "(1::nat) \<le> (if 3 \<le> translation_fail_count self \<or> use_google_translate self
              then 900 else 450)" by simp
    from chunk_text_chunks_nonempty [OF this h(1) h(4)] h(5) have c: "c \<noteq> []" by blast
    from 1(2) h have p: "py_in c translated" by blast
    with c have "translated \<noteq> []" by (cases translated) auto
    with c p show ?thesis by blast
  qed
  with 1(1) show ?thesis by blast
qed

text \<open>Both services down, a fresh instance, a text of one chunk: the text comes back.\<close>

theorem translate_text_degrades_witness:
  "S ''hello'' \<noteq> [] \<and> \<not> (S ''zh'' = S ''zh'' \<and> contains_chinese (S ''hello''))
   \<and> translation_cache init (cache_key (S ''hello'') (S ''en'') (S ''zh'')) = None
   \<and> chunk_text (S ''hello'')
        (if 3 \<le> translation_fail_count init \<or> use_google_translate init then 900 else 450)
        = Some [S ''hello'']
   \<and> S ''hello'' \<in> set [S ''hello'']
   \<and> primary_raises down_env (S ''hello'') (S ''zh'') (S ''en'')
   \<and> google_raises down_env (S ''hello'') (S ''zh'') (S ''en'')
   \<and> (\<exists>translated self'.
         translate_text down_env init (S ''hello'') (S ''zh'') (S ''en'')
           = Some (Inr translated, self')
         \<and> py_in (S ''hello'') translated \<and> translated \<noteq> [])
   \<and> (case translate_text down_env init (S ''hello'') (S ''zh'') (S ''en'') of
         None \<Rightarrow> False
       | Some (result, self') \<Rightarrow>
           result = Inr (S ''hello'')
           \<and> backend_calls self' = [(Primary, S ''hello''), (Secondary, S ''hello'')])"
proof -
  have h: "S ''hello'' \<noteq> [] \<and> \<not> (S ''zh'' = S ''zh'' \<and> contains_chinese (S ''hello''))
   \<and> translation_cache init (cache_key (S ''hello'') (S ''en'') (S ''zh'')) = None
   \<and> chunk_text (S ''hello'')
        (if 3 \<le> translation_fail_count init \<or> use_google_translate init then 900 else 450)
        = Some [S ''hello'']
   \<and> S ''hello'' \<in> set [S ''hello'']"
    by (simp add: S_def init_def contains_chinese_def chunk_text_def)
  have p: "primary_raises down_env (S ''hello'') (S ''zh'') (S ''en'')"
    by (simp add: primary_raises_def down_env_def)
  have g: "google_raises down_env (S ''hello'') (S ''zh'') (S ''en'')"
    by (simp add: google_raises_def down_env_def)
  have run: "(case translate_text down_env init (S ''hello'') (S ''zh'') (S ''en'') of
         None \<Rightarrow> False
       | Some (result, self') \<Rightarrow>
           result = Inr (S ''hello'')
           \<and> backend_calls self' = [(Primary, S ''hello''), (Secondary, S ''hello'')])"
    by (simp add: eval_defs down_env_def)
  from translate_text_degrades [of down_env init "S ''hello''" "S ''zh''" "S ''en''"
      "[S ''hello'']" "S ''hello''"] h p g
  have "\<exists>translated self'.
         translate_text down_env init (S ''hello'') (S ''zh'') (S ''en'')
           = Some (Inr translated, self')
         \<and> py_in (S ''hello'') translated \<and> translated \<noteq> []"
    by blast
  with h p g run show ?thesis by blast
qed

text \<open>
  C4, as amended. Two calls of \<open>translate_text\<close> in a row with the same text and the same
  languages: the first returns a string; the second returns the same string and leaves
  the instance as the first call left it, so it makes no request; and unless the text is
  empty or already Chinese for the target \<open>zh\<close>, the cache then holds that string under
  the key made of the first 30 characters of the text and the two languages. How many
  requests the first call makes is not bounded by one.
\<close>

theorem second_call_cached:
  "\<exists>translated self'.
     translate_text env self text to_lang from_lang = Some (Inr translated, self')
     \<and> translate_text env self' text to_lang from_lang = Some (Inr translated, self')
     \<and> (text \<noteq> [] \<and> \<not> (to_lang = S ''zh'' \<and> contains_chinese text)
          \<longrightarrow> translation_cache self'
                (take 30 text @ S ''_'' @ from_lang @ S ''_'' @ to_lang) = Some translated)"
proof -
  from translate_text_spec [of env self "text" to_lang from_lang]
  obtain translated self' where 1:
    "translate_text env self text to_lang from_lang = Some (Inr translated, self')"
    "text \<noteq> [] \<and> \<not> (to_lang = S ''zh'' \<and> contains_chinese text)
          \<longrightarrow> translation_cache self' (cache_key text from_lang to_lang) = Some translated"
    by blast
  have "translate_text env self' text to_lang from_lang = Some (Inr translated, self')"
  proof (cases "text \<noteq> [] \<and> \<not> (to_lang = S ''zh'' \<and> contains_chinese text)")
    case True
    with 1(2) show ?thesis by (auto simp: translate_text_def)
  next
    case False
    with 1(1) show ?thesis by (auto simp: translate_text_def)
  qed
  with 1 show ?thesis unfolding cache_key_def by blast
qed

text \<open>
  Two calls with \<open>hello\<close> where the primary service is out of quota: the two requests
  of the session are those of the first call.
\<close>

theorem second_call_cached_witness:
  "(S ''hello'' \<noteq> [] \<and> \<not> (S ''zh'' = S ''zh'' \<and> contains_chinese (S ''hello'')))
   \<and> (\<exists>translated self'.
         translate_text quota_env init (S ''hello'') (S ''zh'') (S ''en'')
           = Some (Inr translated, self')
         \<and> translate_text quota_env self' (S ''hello'') (S ''zh'') (S ''en'')
           = Some (Inr translated, self')
         \<and> translation_cache self'
              (take 30 (S ''hello'') @ S ''_'' @ S ''en'' @ S ''_'' @ S ''zh'') = Some translated)
   \<and> (case translate_all quota_env init
               [(S ''hello'', S ''zh'', S ''en''), (S ''hello'', S ''zh'', S ''en'')] of
         None \<Rightarrow> False
       | Some (results, self') \<Rightarrow>
           results = [Inr [20320, 22909], Inr [20320, 22909]]
           \<and> backend_calls self' = [(Primary, S ''hello''), (Secondary, S ''hello'')])"
proof -
  have h: "S ''hello'' \<noteq> [] \<and> \<not> (S ''zh'' = S ''zh'' \<and> contains_chinese (S ''hello''))"
    by (simp add: S_def contains_chinese_def)
  have run: "(case translate_all quota_env init
               [(S ''hello'', S ''zh'', S ''en''), (S ''hello'', S ''zh'', S ''en'')] of
         None \<Rightarrow> False
       | Some (results, self') \<Rightarrow>
           results = [Inr [20320, 22909], Inr [20320, 22909]]
           \<and> backend_calls self' = [(Primary, S ''hello''), (Secondary, S ''hello'')])"
    by (simp add: eval_defs quota_env_def)
  from second_call_cached [of quota_env init "S ''hello''" "S ''zh''" "S ''en''"] h
  have "\<exists>translated self'.
         translate_text quota_env init (S ''hello'') (S ''zh'') (S ''en'')
           = Some (Inr translated, self')
         \<and> translate_text quota_env self' (S ''hello'') (S ''zh'') (S ''en'')
           = Some (Inr translated, self')
         \<and> translation_cache self'
              (take 30 (S ''hello'') @ S ''_'' @ S ''en'' @ S ''_'' @ S ''zh'') = Some translated"
    by blast
  with h run show ?thesis by blast
qed

text \<open>
  C4 as it is stated fails. A text of 451 letters \<open>a\<close> has two chunks, of 450 letters
  and of one; where the primary service translates, two calls with this text make two
  requests, both during the first call.
\<close>

theorem two_calls_counterexample:
  "(case translate_all plain_env init
           [(replicate 451 97, S ''zh'', S ''en''), (replicate 451 97, S ''zh'', S ''en'')] of
      None \<Rightarrow> False
    | Some (results, self') \<Rightarrow>
        results = [Inr (S ''ok ok''), Inr (S ''ok ok'')]
        \<and> backend_calls self' = [(Primary, replicate 450 97), (Primary, [97])])"
  by (simp add: translate_text_def translate_try_def chunk_text_451 translate_chunk_def
        call_primary_def plain_env_def init_def store_def cache_key_def contains_chinese_def
        list_ex_iff is_quota_message_def upper_def upper_char_def S_def Let_def)


section \<open>Claims about enrichment\<close>

lemma additional_data_fields:
  "additional_data data = Inr additional \<Longrightarrow> map fst additional = enrichment_fields"
  by (auto simp: additional_data_def seq_def enrichment_fields_def split: sum.splits)

lemma topic_names_objects:
  "\<forall>topic \<in> set topics. \<exists>kvs. topic = JObj kvs \<Longrightarrow> \<exists>names. topic_names topics = Inr names"
  by (induction topics) (auto simp: seq_def)

lemma topics_of_well_formed:
  "topics_well_formed members \<Longrightarrow> \<exists>topics. topics_of (JObj members) = Inr topics"
proof -
  assume wf: "topics_well_formed members"
  show ?thesis
  proof (cases "map_of members (S ''topics'')")
    case None
    then show ?thesis by (simp add: topics_of_def seq_def)
  next
    case (Some t)
    show ?thesis
    proof (cases "truthy t")
      case False
      with Some show ?thesis by (simp add: topics_of_def seq_def)
    next
      case True
      with wf Some obtain topics where t: "t = JArr topics"
        "\<forall>topic \<in> set topics. \<exists>kvs. topic = JObj kvs"
        by (auto simp: topics_well_formed_def)
      from topic_names_objects [OF t(2)] obtain names where "topic_names topics = Inr names"
        by blast
      with Some True t(1) show ?thesis by (simp add: topics_of_def seq_def)
    qed
  qed
qed

lemma additional_data_object:
  "topics_well_formed members \<Longrightarrow> \<exists>additional. additional_data (JObj members) = Inr additional"
  using topics_of_well_formed [of members]
  by (auto simp: additional_data_def seq_def)

lemma topic_names_raises:
  "\<not> (\<forall>topic \<in> set topics. \<exists>kvs. topic = JObj kvs) \<Longrightarrow> \<exists>e. topic_names topics = Inl e"
proof (induction topics)
  case Nil
  then show ?case by simp
next
  case (Cons topic rest)
  show ?case
  proof (cases "\<exists>kvs. topic = JObj kvs")
    case False
    then have "dict_get topic (S ''name'') JNull = Inl AttributeError"
      by (cases topic) auto
    then show ?thesis by (simp add: seq_def)
  next
    case True
    with Cons.prems have "\<not> (\<forall>t \<in> set rest. \<exists>kvs. t = JObj kvs)" by auto
    from Cons.IH [OF this] obtain e where "topic_names rest = Inl e" by blast
    with True show ?thesis by (auto simp: seq_def)
  qed
qed

lemma topics_of_raises:
  assumes "\<not> topics_well_formed members"
  shows "\<exists>e. topics_of (JObj members) = Inl e"
proof -
  from assms obtain t where t: "map_of members (S ''topics'') = Some t" "truthy t"
    "\<not> (\<exists>topics. t = JArr topics \<and> (\<forall>topic \<in> set topics. \<exists>kvs. topic = JObj kvs))"
    by (auto simp: topics_well_formed_def split: option.splits)
  have "\<exists>e. seq (iter t) (\<lambda>items. seq (topic_names items) (\<lambda>names. Inr (JArr names))) = Inl e"
  proof (cases t)
    case (JArr topics)
    with t(3) have "\<not> (\<forall>topic \<in> set topics. \<exists>kvs. topic = JObj kvs)" by simp
    from topic_names_raises [OF this] JArr show ?thesis by (auto simp: seq_def)
  next
    case (JStr s)
    with t(2) obtain c cs where "s = c # cs" by (cases s) auto
    with JStr show ?thesis by (simp add: seq_def)
  next
    case (JObj kvs)
    with t(2) obtain kv rest where "kvs = kv # rest" by (cases kvs) auto
    with JObj show ?thesis by (simp add: seq_def)
  qed (simp_all add: seq_def)
  with t(1,2) show ?thesis by (simp add: topics_of_def seq_def)
qed

lemma additional_data_raises:
  "(\<forall>members. data \<noteq> JObj members) \<or> (\<exists>members. data = JObj members \<and> \<not> topics_well_formed members)
     \<Longrightarrow> \<exists>e. additional_data data = Inl e"
proof (cases data)
  case (JObj members)
  assume "(\<forall>members. data \<noteq> JObj members)
     \<or> (\<exists>members. data = JObj members \<and> \<not> topics_well_formed members)"
  with JObj have "\<not> topics_well_formed members" by simp
  from topics_of_raises [OF this] JObj show ?thesis
    by (auto simp: additional_data_def seq_def)
qed (simp_all add: additional_data_def seq_def)

lemma enrich_unreadable:
  assumes "requests_get env (semantic_scholar_url arxiv_id) = Inr response"
    "status_code response = 200" "json response = Inr data"
    "(\<forall>members. data \<noteq> JObj members)
       \<or> (\<exists>members. data = JObj members \<and> \<not> topics_well_formed members)"
  shows "enrich_with_semantic_scholar env arxiv_id = Inr []"
proof -
  from additional_data_raises [OF assms(4)] obtain e where "additional_data data = Inl e"
    by blast
  with assms(1-3) show ?thesis
    by (simp add: enrich_with_semantic_scholar_def enrich_try_def seq_def)
qed

text \<open>
  C10, as amended. \<open>enrich_with_semantic_scholar\<close> never raises: it returns a
  dictionary, which is empty or has exactly the eight enrichment fields. The URL it
  requests is built from the identifier without a leading \<open>arxiv:\<close>. The dictionary is
  empty when the request raises, when the status is not 200, and when reading a 200
  answer raises: its body is not JSON, or is not a JSON object, or is an object whose
  \<open>topics\<close> cannot be read. It has the eight fields when the status is 200 and the body
  is a JSON object whose \<open>topics\<close> can be read.
\<close>

theorem enrich_never_raises:
  "(\<exists>additional. enrich_with_semantic_scholar env arxiv_id = Inr additional
       \<and> (additional = [] \<or> map fst additional = enrichment_fields))
   \<and> semantic_scholar_url (S ''arxiv:'' @ ident)
       = S ''https://api.semanticscholar.org/v1/paper/arXiv:'' @ ident
   \<and> (\<not> startswith arxiv_id (S ''arxiv:'')
        \<longrightarrow> semantic_scholar_url arxiv_id
            = S ''https://api.semanticscholar.org/v1/paper/arXiv:'' @ arxiv_id)
   \<and> (requests_get env (semantic_scholar_url arxiv_id) = Inl e
        \<longrightarrow> enrich_with_semantic_scholar env arxiv_id = Inr [])
   \<and> (requests_get env (semantic_scholar_url arxiv_id) = Inr response
        \<and> status_code response \<noteq> 200
        \<longrightarrow> enrich_with_semantic_scholar env arxiv_id = Inr [])
   \<and> (requests_get env (semantic_scholar_url arxiv_id) = Inr response
        \<and> status_code response = 200 \<and> json response = Inl e
        \<longrightarrow> enrich_with_semantic_scholar env arxiv_id = Inr [])
   \<and> (requests_get env (semantic_scholar_url arxiv_id) = Inr response
        \<and> status_code response = 200 \<and> json response = Inr (JObj members)
        \<and> topics_well_formed members
        \<longrightarrow> (\<exists>additional. enrich_with_semantic_scholar env arxiv_id = Inr additional
               \<and> map fst additional = enrichment_fields))
   \<and> (requests_get env (semantic_scholar_url arxiv_id) = Inr response
        \<and> status_code response = 200 \<and> json response = Inr data
        \<and> (\<forall>members. data \<noteq> JObj members)
        \<longrightarrow> enrich_with_semantic_scholar env arxiv_id = Inr [])
   \<and> (requests_get env (semantic_scholar_url arxiv_id) = Inr response
        \<and> status_code response = 200 \<and> json response = Inr (JObj members)
        \<and> \<not> topics_well_formed members
        \<longrightarrow> enrich_with_semantic_scholar env arxiv_id = Inr [])"
proof -
  let ?url = "semantic_scholar_url arxiv_id"
  have total: "\<exists>additional. enrich_with_semantic_scholar env arxiv_id = Inr additional
       \<and> (additional = [] \<or> map fst additional = enrichment_fields)"
  proof (cases "enrich_try env ?url")
    case (Inl e)
    then show ?thesis by (simp add: enrich_with_semantic_scholar_def)
  next
    case (Inr additional)
    then have "additional = [] \<or> map fst additional = enrichment_fields"
      by (auto simp: enrich_try_def seq_def split: sum.splits if_splits
            dest: additional_data_fields)
    with Inr show ?thesis by (simp add: enrich_with_semantic_scholar_def)
  qed
  have strip: "semantic_scholar_url (S ''arxiv:'' @ ident)
       = S ''https://api.semanticscholar.org/v1/paper/arXiv:'' @ ident"
    by (simp add: semantic_scholar_url_def startswith_def S_def)
  have keep: "\<not> startswith arxiv_id (S ''arxiv:'')
        \<longrightarrow> ?url = S ''https://api.semanticscholar.org/v1/paper/arXiv:'' @ arxiv_id"
    by (simp add: semantic_scholar_url_def)
  have raised: "requests_get env ?url = Inl e
        \<longrightarrow> enrich_with_semantic_scholar env arxiv_id = Inr []"
    by (simp add: enrich_with_semantic_scholar_def enrich_try_def seq_def)
  have status: "requests_get env ?url = Inr response \<and> status_code response \<noteq> 200
        \<longrightarrow> enrich_with_semantic_scholar env arxiv_id = Inr []"
    by (simp add: enrich_with_semantic_scholar_def enrich_try_def seq_def)
  have body: "requests_get env ?url = Inr response
        \<and> status_code response = 200 \<and> json response = Inl e
        \<longrightarrow> enrich_with_semantic_scholar env arxiv_id = Inr []"
    by (simp add: enrich_with_semantic_scholar_def enrich_try_def seq_def)
  have success: "requests_get env ?url = Inr response
        \<and> status_code response = 200 \<and> json response = Inr (JObj members)
        \<and> topics_well_formed members
        \<longrightarrow> (\<exists>additional. enrich_with_semantic_scholar env arxiv_id = Inr additional
               \<and> map fst additional = enrichment_fields)"
  proof (intro impI, elim conjE)
    assume a: "requests_get env ?url = Inr response" "status_code response = 200"
      "json response = Inr (JObj members)" "topics_well_formed members"
    from additional_data_object [OF a(4)] obtain additional where
      d: "additional_data (JObj members) = Inr additional" by blast
    with a have "enrich_with_semantic_scholar env arxiv_id = Inr additional"
      by (simp add: enrich_with_semantic_scholar_def enrich_try_def seq_def)
    with additional_data_fields [OF d] show "\<exists>additional.
        enrich_with_semantic_scholar env arxiv_id = Inr additional
        \<and> map fst additional = enrichment_fields" by blast
  qed
  have shape: "requests_get env ?url = Inr response
        \<and> status_code response = 200 \<and> json response = Inr data
        \<and> (\<forall>members. data \<noteq> JObj members)
        \<longrightarrow> enrich_with_semantic_scholar env arxiv_id = Inr []"
    using enrich_unreadable [of env arxiv_id response data] by blast
  have topics: "requests_get env ?url = Inr response
        \<and> status_code response = 200 \<and> json response = Inr (JObj members)
        \<and> \<not> topics_well_formed members
        \<longrightarrow> enrich_with_semantic_scholar env arxiv_id = Inr []"
    using enrich_unreadable [of env arxiv_id response "JObj members"] by blast
  from total strip keep raised status body success shape topics show ?thesis by blast
qed

text \<open>The definitions an enrichment example unfolds.\<close>

lemmas enrich_defs =
  enrich_with_semantic_scholar_def enrich_try_def seq_def scholar_env_def scholar_response_def
  scholar_members_def not_found_def odd_env_def array_response_def names_response_def
  semantic_scholar_url_def startswith_def additional_data_def topics_of_def
  topics_well_formed_def S_def

text \<open>
  A known paper asked for with the prefix, an unknown paper (status 404), a request that
  raises, and two 200 answers that cannot be read: an array, and topics given as names.
\<close>

theorem enrich_never_raises_witness:
  "requests_get scholar_env (semantic_scholar_url (S ''arxiv:1706.03762'')) = Inr scholar_response
   \<and> status_code scholar_response = 200
   \<and> json scholar_response = Inr (JObj scholar_members)
   \<and> topics_well_formed scholar_members
   \<and> (\<exists>additional.
         enrich_with_semantic_scholar scholar_env (S ''arxiv:1706.03762'') = Inr additional
         \<and> map fst additional = enrichment_fields)
   \<and> enrich_with_semantic_scholar scholar_env (S ''arxiv:1706.03762'')
       = Inr [(S ''citation_count'', JNum 42),
              (S ''influence_factor'', JNum 0),
              (S ''published_in'', JStr (S ''NIPS'')),
              (S ''year'', JNum 2017),
              (S ''doi'', JNull),
              (S ''url'', JNull),
              (S ''is_open_access'', JBool False),
              (S ''topics'', JArr [JStr (S ''Attention''), JNull])]
   \<and> \<not> startswith (S ''1234.5678'') (S ''arxiv:'')
   \<and> semantic_scholar_url (S ''1234.5678'')
       = S ''https://api.semanticscholar.org/v1/paper/arXiv:'' @ S ''1234.5678''
   \<and> requests_get scholar_env (semantic_scholar_url (S ''1234.5678'')) = Inr not_found
   \<and> status_code not_found \<noteq> 200
   \<and> enrich_with_semantic_scholar scholar_env (S ''1234.5678'') = Inr []
   \<and> requests_get down_env (semantic_scholar_url (S ''1234.5678'')) = Inl RequestException
   \<and> enrich_with_semantic_scholar down_env (S ''1234.5678'') = Inr []
   \<and> requests_get odd_env (semantic_scholar_url (S ''1'')) = Inr array_response
   \<and> status_code array_response = 200
   \<and> json array_response = Inr (JArr [])
   \<and> (\<forall>members. JArr [] \<noteq> JObj members)
   \<and> enrich_with_semantic_scholar odd_env (S ''1'') = Inr []
   \<and> requests_get odd_env (semantic_scholar_url (S ''2'')) = Inr names_response
   \<and> status_code names_response = 200
   \<and> json names_response = Inr (JObj [(S ''topics'', JArr [JStr (S ''ML'')])])
   \<and> \<not> topics_well_formed [(S ''topics'', JArr [JStr (S ''ML'')])]
   \<and> enrich_with_semantic_scholar odd_env (S ''2'') = Inr []"
proof -
  have d: "requests_get odd_env (semantic_scholar_url (S ''1'')) = Inr array_response
     \<and> status_code array_response = 200
     \<and> json array_response = Inr (JArr [])
     \<and> (\<forall>members. JArr [] \<noteq> JObj members)"
    by (simp add: enrich_defs)
  have n: "requests_get odd_env (semantic_scholar_url (S ''2'')) = Inr names_response
     \<and> status_code names_response = 200
     \<and> json names_response = Inr (JObj [(S ''topics'', JArr [JStr (S ''ML'')])])
     \<and> \<not> topics_well_formed [(S ''topics'', JArr [JStr (S ''ML'')])]"
    by (simp add: enrich_defs)
  from enrich_never_raises [of odd_env "S ''1''" "S ''1''" RequestException array_response
      scholar_members "JArr []"] d
  have 4: "enrich_with_semantic_scholar odd_env (S ''1'') = Inr []"
    by blast
  from enrich_never_raises [of odd_env "S ''2''" "S ''2''" RequestException names_response
      "[(S ''topics'', JArr [JStr (S ''ML'')])]" JNull] n
  have 5: "enrich_with_semantic_scholar odd_env (S ''2'') = Inr []"
    by blast
  have a: "requests_get scholar_env (semantic_scholar_url (S ''arxiv:1706.03762''))
             = Inr scholar_response
     \<and> status_code scholar_response = 200
     \<and> json scholar_response = Inr (JObj scholar_members)
     \<and> topics_well_formed scholar_members"
    by (simp add: enrich_defs)
  have run: "enrich_with_semantic_scholar scholar_env (S ''arxiv:1706.03762'')
       = Inr [(S ''citation_count'', JNum 42),
              (S ''influence_factor'', JNum 0),
              (S ''published_in'', JStr (S ''NIPS'')),
              (S ''year'', JNum 2017),
              (S ''doi'', JNull),
              (S ''url'', JNull),
              (S ''is_open_access'', JBool False),
              (S ''topics'', JArr [JStr (S ''Attention''), JNull])]"
    by (simp add: enrich_defs)
  have b: "\<not> startswith (S ''1234.5678'') (S ''arxiv:'')
     \<and> requests_get scholar_env (semantic_scholar_url (S ''1234.5678'')) = Inr not_found
     \<and> status_code not_found \<noteq> 200"
    by (simp add: enrich_defs)
  have c: "requests_get down_env (semantic_scholar_url (S ''1234.5678'')) = Inl RequestException"
    by (simp add: down_env_def)
  from enrich_never_raises [of scholar_env "S ''arxiv:1706.03762''" "S ''1706.03762''"
      RequestException scholar_response scholar_members] a
  have 1: "\<exists>additional.
         enrich_with_semantic_scholar scholar_env (S ''arxiv:1706.03762'') = Inr additional
         \<and> map fst additional = enrichment_fields"
    by blast
  from enrich_never_raises [of scholar_env "S ''1234.5678''" "S ''1706.03762''"
      RequestException not_found scholar_members] b
  have 2: "semantic_scholar_url (S ''1234.5678'')
       = S ''https://api.semanticscholar.org/v1/paper/arXiv:'' @ S ''1234.5678''
     \<and> enrich_with_semantic_scholar scholar_env (S ''1234.5678'') = Inr []"
    by blast
  from enrich_never_raises [of down_env "S ''1234.5678''" "S ''1706.03762''"
      RequestException not_found scholar_members] c
  have 3: "enrich_with_semantic_scholar down_env (S ''1234.5678'') = Inr []"
    by blast
  from a run b c 1 2 3 d n 4 5 show ?thesis by blast
qed


text \<open>
  C10 as it is stated fails: an answer with status 200 does not always give the eight
  fields. When its body is a JSON array, or an object whose topics are plain names,
  reading it raises inside the \<open>try\<close> block and the dictionary returned is empty.
\<close>

theorem enrich_success_counterexample:
  "requests_get odd_env (semantic_scholar_url (S ''1'')) = Inr array_response
   \<and> status_code array_response = 200
   \<and> json array_response = Inr (JArr [])
   \<and> enrich_with_semantic_scholar odd_env (S ''1'') = Inr []
   \<and> requests_get odd_env (semantic_scholar_url (S ''2'')) = Inr names_response
   \<and> status_code names_response = 200
   \<and> json names_response = Inr (JObj [(S ''topics'', JArr [JStr (S ''ML'')])])
   \<and> enrich_with_semantic_scholar odd_env (S ''2'') = Inr []"
  by (simp add: enrich_with_semantic_scholar_def enrich_try_def seq_def odd_env_def
        array_response_def names_response_def semantic_scholar_url_def startswith_def
        additional_data_def topics_of_def S_def)

end
